theory Spec2Isabelle
  imports Complex_Main "HOL-Library.AList" "HOL-Library.Multiset"
begin

section \<open>The game session engine of Vibehoot (src/lib/game-engine.ts)\<close>

text \<open>
  The engine keeps one JSON-serialised \<open>GameState\<close> per join code in Redis. Every
  operation reads the state, changes it in memory and writes it back. The model below
  follows the second (complete) version of the \<open>GameEngine\<close> class.

  Conventions of the embedding:
  \<^item> a JavaScript object used as a dictionary (\<open>players\<close>, \<open>answers\<close>) is the list of
    its own properties in the order the object lists them (\<open>Object.values\<close> is
    \<open>map snd\<close>); a lookup also finds the members inherited from \<open>Object.prototype\<close>,
    and an assignment follows the rules of property creation (\<open>has_member\<close>, \<open>assign\<close>);
  \<^item> \<open>Date.now()\<close> is an integer argument of the operation that reads the clock;
    option indices, time limits and the \<open>order\<close> of a question are integers too;
  \<^item> a thrown \<open>Error\<close> is \<open>Inl\<close> of the \<open>error\<close> datatype; every operation returns the
    Redis store it leaves behind together with its outcome;
  \<^item> a JavaScript number is an exact rational or one of \<open>Infinity\<close>, \<open>-Infinity\<close>,
    \<open>NaN\<close>. The binary64 rounding of intermediate results is not modelled; every score
    evaluated below is one where binary64 gives the same value;
    \<open>JSON.stringify\<close> writes a non-finite number as \<open>null\<close>, which is why a stored
    score is a \<open>rat option\<close> (\<open>None\<close> is \<open>null\<close>);
  \<^item> failures of Redis or of the database themselves are not modelled, and the session
    ledger rows written through Prisma are left out.
\<close>

subsection \<open>Numbers\<close>

datatype number = Fin rat | PosInf | NegInf | NaN

text \<open>\<open>a / b\<close> for finite operands; the divisor is never a negative zero here.\<close>

definition js_div :: "rat \<Rightarrow> rat \<Rightarrow> number" where
  "js_div a b =
     (if b = 0 then (if a = 0 then NaN else if 0 < a then PosInf else NegInf)
      else Fin (a / b))"

text \<open>\<open>a - x\<close> for a finite \<open>a\<close>.\<close>

fun js_sub :: "rat \<Rightarrow> number \<Rightarrow> number" where
  "js_sub a (Fin b) = Fin (a - b)"
| "js_sub a PosInf = NegInf"
| "js_sub a NegInf = PosInf"
| "js_sub a NaN = NaN"

text \<open>\<open>Math.max(a, x)\<close> for a finite \<open>a\<close>.\<close>

fun math_max :: "rat \<Rightarrow> number \<Rightarrow> number" where
  "math_max a (Fin b) = Fin (max a b)"
| "math_max a PosInf = PosInf"
| "math_max a NegInf = Fin a"
| "math_max a NaN = NaN"

text \<open>\<open>x * c\<close> for a finite \<open>c\<close>.\<close>

fun js_mul :: "number \<Rightarrow> rat \<Rightarrow> number" where
  "js_mul (Fin a) c = Fin (a * c)"
| "js_mul PosInf c = (if c = 0 then NaN else if 0 < c then PosInf else NegInf)"
| "js_mul NegInf c = (if c = 0 then NaN else if 0 < c then NegInf else PosInf)"
| "js_mul NaN c = NaN"

text \<open>\<open>a + x\<close> for a finite \<open>a\<close>.\<close>

fun js_add :: "rat \<Rightarrow> number \<Rightarrow> number" where
  "js_add a (Fin b) = Fin (a + b)"
| "js_add a PosInf = PosInf"
| "js_add a NegInf = NegInf"
| "js_add a NaN = NaN"

text \<open>\<open>Math.round\<close>: to the nearest integer, a half goes up.\<close>

fun math_round :: "number \<Rightarrow> number" where
  "math_round (Fin a) = Fin (of_int \<lfloor>a + 1 / 2\<rfloor>)"
| "math_round PosInf = PosInf"
| "math_round NegInf = NegInf"
| "math_round NaN = NaN"

text \<open>A score read back from JSON: \<open>null\<close> counts as \<open>0\<close> in arithmetic.\<close>

fun toNumber :: "rat option \<Rightarrow> rat" where
  "toNumber None = 0"
| "toNumber (Some r) = r"

text \<open>\<open>JSON.parse (JSON.stringify x)\<close> on a number.\<close>

fun toJSON :: "number \<Rightarrow> rat option" where
  "toJSON (Fin r) = Some r"
| "toJSON PosInf = None"
| "toJSON NegInf = None"
| "toJSON NaN = None"

subsection \<open>Objects as dictionaries\<close>

text \<open>
  The members every plain object inherits from \<open>Object.prototype\<close> (ECMAScript, as in
  Node.js). All of them are functions or objects, so a lookup that finds one is truthy.
\<close>

definition object_prototype_names :: "string list" where
  "object_prototype_names =
     [''constructor'', ''__defineGetter__'', ''__defineSetter__'', ''hasOwnProperty'',
      ''__lookupGetter__'', ''__lookupSetter__'', ''isPrototypeOf'',
      ''propertyIsEnumerable'', ''toString'', ''valueOf'', ''__proto__'',
      ''toLocaleString'']"

text \<open>
  \<open>if (obj[k])\<close> on an object read with \<open>JSON.parse\<close> whose own properties are the entries
  of the list (their values are objects): an own property or an inherited member.
\<close>

definition has_member :: "(string \<times> 'v) list \<Rightarrow> string \<Rightarrow> bool" where
  "has_member al k \<longleftrightarrow> map_of al k \<noteq> None \<or> k \<in> set object_prototype_names"

text \<open>
  A key is an array index when it is the decimal numeral, without leading zeros, of an
  integer up to \<open>2\<^sup>3\<^sup>2 - 2\<close>. An object lists its array indices first, in ascending
  order, and then its other keys in the order of their creation.
\<close>

definition decimal :: "string \<Rightarrow> nat" where
  "decimal s = foldl (\<lambda>n c. 10 * n + length (takeWhile (\<lambda>d. d \<noteq> c) ''0123456789'')) 0 s"

definition array_index :: "string \<Rightarrow> nat option" where
  "array_index s =
     (if s \<noteq> [] \<and> list_all (\<lambda>c. c \<in> set ''0123456789'') s
         \<and> (hd s \<noteq> CHR ''0'' \<or> length s = 1) \<and> decimal s \<le> 4294967294
      then Some (decimal s) else None)"

definition index_below :: "nat \<Rightarrow> string \<times> 'v \<Rightarrow> bool" where
  "index_below n e = (case array_index (fst e) of None \<Rightarrow> False | Some m \<Rightarrow> m < n)"

text \<open>
  \<open>obj[k] = v\<close> on such an object, its own properties given in the order the object
  lists them. An own property keeps its place; \<open>__proto__\<close> that is not an own property
  sets the prototype and creates nothing; a new key goes where the listing order puts it.
\<close>

definition assign :: "string \<Rightarrow> 'v \<Rightarrow> (string \<times> 'v) list \<Rightarrow> (string \<times> 'v) list" where
  "assign k v al =
     (if map_of al k \<noteq> None then AList.update k v al
      else if k = ''__proto__'' then al
      else (case array_index k of
              None \<Rightarrow> al @ [(k, v)]
            | Some n \<Rightarrow> takeWhile (index_below n) al @ (k, v) # dropWhile (index_below n) al))"

subsection \<open>Data model\<close>

datatype status = WAITING | ACTIVE | SHOWING_QUESTION | SHOWING_RESULTS | ENDED

record Player =
  p_id :: string
  nickname :: string
  score :: "rat option"

record Answer =
  playerId :: string
  optionIndex :: int
  responseTimeMs :: int

record GameState =
  sessionId :: string
  quizId :: string
  hostId :: string
  status :: status
  currentQuestionIndex :: int
  players :: "(string \<times> Player) list"
  answers :: "(string \<times> Answer) list"
  questionStartTime :: "int option"
  startTime :: "int option"

record Question =
  q_id :: string
  q_text :: string
  options :: "string list"
  correctOptionIndex :: int
  timeLimit :: int
  q_order :: int

datatype error =
    Session_not_found
  | Game_already_started
  | Not_accepting_answers
  | Already_answered
  | No_current_question

text \<open>Redis, keyed by join code (the key is \<open>"session:" + joinCode\<close>).\<close>

type_synonym redis = "string \<rightharpoonup> GameState"

text \<open>The quiz table of the database: the question rows of each quiz.\<close>

type_synonym quizzes = "string \<rightharpoonup> Question list"

subsection \<open>Operations\<close>

definition createSession :: "redis \<Rightarrow> string \<Rightarrow> string \<Rightarrow> string \<Rightarrow> string \<Rightarrow> redis" where
  \<comment> \<open>\<open>joinCode\<close> is the random six-digit code, \<open>sid\<close> the id of the new ledger row\<close>
  "createSession r joinCode sid quiz host =
     r(joinCode \<mapsto> \<lparr>sessionId = sid, quizId = quiz, hostId = host, status = WAITING,
                     currentQuestionIndex = - 1, players = [], answers = [],
                     questionStartTime = None, startTime = None\<rparr>)"

definition joinSession ::
  "redis \<Rightarrow> string \<Rightarrow> string \<Rightarrow> string \<Rightarrow> redis \<times> (error + GameState)" where
  "joinSession r joinCode nick pid =
     (case r joinCode of
        None \<Rightarrow> (r, Inl Session_not_found)
      | Some state \<Rightarrow>
          if status state \<noteq> WAITING then (r, Inl Game_already_started)
          else
            let state' = state\<lparr>players :=
                  assign pid \<lparr>p_id = pid, nickname = nick, score = Some 0\<rparr>
                    (players state)\<rparr>
            in (r(joinCode \<mapsto> state'), Inr state'))"

definition getSession :: "redis \<Rightarrow> string \<Rightarrow> GameState option" where
  "getSession r joinCode = r joinCode"

definition getQuizQuestions :: "quizzes \<Rightarrow> string \<Rightarrow> Question list" where
  \<comment> \<open>\<open>orderBy: { order: 'asc' }\<close>; rows with equal \<open>order\<close> keep their table order here\<close>
  "getQuizQuestions db quiz =
     (case db quiz of None \<Rightarrow> [] | Some qs \<Rightarrow> sort_key q_order qs)"

text \<open>\<open>questions[i]\<close>: \<open>undefined\<close> outside the array.\<close>

definition question_at :: "Question list \<Rightarrow> int \<Rightarrow> Question option" where
  "question_at qs i = (if 0 \<le> i \<and> i < int (length qs) then Some (qs ! nat i) else None)"

definition startGame :: "redis \<Rightarrow> int \<Rightarrow> string \<Rightarrow> redis \<times> GameState option" where
  "startGame r now joinCode =
     (case getSession r joinCode of
        None \<Rightarrow> (r, None)
      | Some state \<Rightarrow>
          let state' = state\<lparr>status := ACTIVE, startTime := Some now,
                             currentQuestionIndex := - 1\<rparr>
          in (r(joinCode \<mapsto> state'), Some state'))"

definition nextQuestion ::
  "quizzes \<Rightarrow> redis \<Rightarrow> int \<Rightarrow> string
     \<Rightarrow> redis \<times> (error + GameState \<times> Question option \<times> nat)" where
  "nextQuestion db r now joinCode =
     (case getSession r joinCode of
        None \<Rightarrow> (r, Inl Session_not_found)
      | Some state \<Rightarrow>
          let questions = getQuizQuestions db (quizId state);
              state1 = state\<lparr>currentQuestionIndex := currentQuestionIndex state + 1,
                             answers := [],
                             questionStartTime := Some now,
                             status := SHOWING_QUESTION\<rparr>;
              question = question_at questions (currentQuestionIndex state1);
              state2 = (if question = None then state1\<lparr>status := ENDED\<rparr> else state1)
          in (r(joinCode \<mapsto> state2), Inr (state2, question, length questions)))"

text \<open>The points of an answer (lines 244 to 249 of the source).\<close>

definition calcPoints :: "bool \<Rightarrow> int \<Rightarrow> int \<Rightarrow> number" where
  "calcPoints correct rtMs limit =
     (if correct then
        let timeBonus = math_max 0 (js_sub 1 (js_div (of_int rtMs) (of_int (limit * 1000))))
        in math_round (js_add 1000 (js_mul timeBonus 500))
      else Fin 0)"

text \<open>\<open>state.questionStartTime || Date.now()\<close>: \<open>null\<close> and \<open>0\<close> are falsy.\<close>

definition startOr :: "int option \<Rightarrow> int \<Rightarrow> int" where
  "startOr t now = (case t of None \<Rightarrow> now | Some s \<Rightarrow> if s = 0 then now else s)"

definition addScore :: "number \<Rightarrow> Player \<Rightarrow> Player" where
  \<comment> \<open>\<open>score += points\<close>, as the score reads after the state went through JSON\<close>
  "addScore points p = p\<lparr>score := toJSON (js_add (toNumber (score p)) points)\<rparr>"

text \<open>
  \<open>submitAnswer\<close> between its \<open>redis.get\<close> and its \<open>redis.set\<close> (lines 234 to 259):
  the checks and the changes made to the state that was read. \<open>now\<close> and \<open>now'\<close> are
  the two readings of the clock on line 241. Line 257 is reached only with a
  \<open>playerId\<close> that names no inherited member, so \<open>state.players[playerId]\<close> is the own
  property or \<open>undefined\<close>; \<open>score += points\<close> changes the player where it stands.
\<close>

definition submitAnswer_local ::
  "quizzes \<Rightarrow> GameState \<Rightarrow> int \<Rightarrow> int \<Rightarrow> string \<Rightarrow> int
     \<Rightarrow> error + GameState \<times> bool \<times> number" where
  "submitAnswer_local db state now now' pid oi =
     (if status state \<noteq> SHOWING_QUESTION then Inl Not_accepting_answers
      else if has_member (answers state) pid then Inl Already_answered
      else
        (case question_at (getQuizQuestions db (quizId state))
                (currentQuestionIndex state) of
           None \<Rightarrow> Inl No_current_question
         | Some question \<Rightarrow>
             let rtMs = now - startOr (questionStartTime state) now';
                 correct = (oi = correctOptionIndex question);
                 points = calcPoints correct rtMs (timeLimit question);
                 state1 = state\<lparr>answers :=
                    assign pid
                      \<lparr>playerId = pid, optionIndex = oi, responseTimeMs = rtMs\<rparr>
                      (answers state)\<rparr>;
                 state2 = (case map_of (players state1) pid of
                             None \<Rightarrow> state1
                           | Some p \<Rightarrow> state1\<lparr>players :=
                               AList.update pid (addScore points p) (players state1)\<rparr>)
             in Inr (state2, correct, points)))"

definition submitAnswer ::
  "quizzes \<Rightarrow> redis \<Rightarrow> int \<Rightarrow> int \<Rightarrow> string \<Rightarrow> string \<Rightarrow> int
     \<Rightarrow> redis \<times> (error + bool \<times> number)" where
  "submitAnswer db r now now' joinCode pid oi =
     (case getSession r joinCode of
        None \<Rightarrow> (r, Inl Session_not_found)
      | Some state \<Rightarrow>
          (case submitAnswer_local db state now now' pid oi of
             Inl e \<Rightarrow> (r, Inl e)
           | Inr (state', res) \<Rightarrow> (r(joinCode \<mapsto> state'), Inr res)))"

record Results =
  res_state :: GameState
  res_correctOptionIndex :: int
  answerDistribution :: "nat list"
  correctCount :: nat

text \<open>The body of the \<open>forEach\<close> on lines 286 to 293.\<close>

definition countAnswer :: "int \<Rightarrow> Answer \<Rightarrow> nat list \<times> nat \<Rightarrow> nat list \<times> nat" where
  "countAnswer c a acc =
     (let d = fst acc; n = snd acc;
          d' = (if 0 \<le> optionIndex a \<and> optionIndex a < 4
                then d[nat (optionIndex a) := d ! nat (optionIndex a) + 1] else d);
          n' = (if optionIndex a = c then n + 1 else n)
      in (d', n'))"

definition showResults :: "quizzes \<Rightarrow> redis \<Rightarrow> string \<Rightarrow> redis \<times> (error + Results)" where
  "showResults db r joinCode =
     (case getSession r joinCode of
        None \<Rightarrow> (r, Inl Session_not_found)
      | Some state \<Rightarrow>
          (case question_at (getQuizQuestions db (quizId state))
                  (currentQuestionIndex state) of
             None \<Rightarrow> (r, Inl No_current_question)
           | Some question \<Rightarrow>
               let state' = state\<lparr>status := SHOWING_RESULTS\<rparr>;
                   tally = fold (countAnswer (correctOptionIndex question))
                             (map snd (answers state')) ([0, 0, 0, 0], 0)
               in (r(joinCode \<mapsto> state'),
                   Inr \<lparr>res_state = state',
                        res_correctOptionIndex = correctOptionIndex question,
                        answerDistribution = fst tally,
                        correctCount = snd tally\<rparr>)))"

definition getLeaderboard :: "redis \<Rightarrow> string \<Rightarrow> Player list" where
  \<comment> \<open>the comparator \<open>b.score - a.score\<close> with a stable sort\<close>
  "getLeaderboard r joinCode =
     (case getSession r joinCode of
        None \<Rightarrow> []
      | Some state \<Rightarrow>
          take 10 (sort_key (\<lambda>p. - toNumber (score p)) (map snd (players state))))"

definition endGame :: "redis \<Rightarrow> string \<Rightarrow> redis" where
  "endGame r joinCode =
     (case getSession r joinCode of
        None \<Rightarrow> r
      | Some state \<Rightarrow> r(joinCode \<mapsto> state\<lparr>status := ENDED\<rparr>))"

subsection \<open>The scoring rule as the specification words it\<close>

text \<open>
  \<open>points = round(1000 + max(0, 1 - responseTimeMs / (timeLimit * 1000)) * 500)\<close>, read
  over the rationals. It is compared with \<open>calcPoints\<close> below.
\<close>

definition spec_points :: "int \<Rightarrow> int \<Rightarrow> int" where
  "spec_points rtMs limit =
     round (1000 + max 0 (1 - rat_of_int rtMs / (rat_of_int limit * 1000)) * 500)"

definition in_range :: "rat \<Rightarrow> rat \<Rightarrow> number \<Rightarrow> bool" where
  "in_range lo hi x = (case x of Fin a \<Rightarrow> lo \<le> a \<and> a \<le> hi | _ \<Rightarrow> False)"

subsection \<open>Two concrete games\<close>

text \<open>
  The quiz of the engine's unit tests: two questions with four options each, stored out
  of order so that the \<open>orderBy\<close> of \<open>getQuizQuestions\<close> matters.
\<close>

definition quiz1_q1 :: Question where
  "quiz1_q1 = \<lparr>q_id = ''q1'', q_text = ''Question 1'', options = [''A'', ''B'', ''C'', ''D''],
               correctOptionIndex = 0, timeLimit = 20, q_order = 0\<rparr>"

definition quiz1_q2 :: Question where
  "quiz1_q2 = \<lparr>q_id = ''q2'', q_text = ''Question 2'', options = [''A'', ''B'', ''C'', ''D''],
               correctOptionIndex = 1, timeLimit = 30, q_order = 1\<rparr>"

definition db1 :: quizzes where
  "db1 = [''quiz-1'' \<mapsto> [quiz1_q2, quiz1_q1]]"

definition r_created :: redis where
  "r_created = createSession Map.empty ''123456'' ''s1'' ''quiz-1'' ''host-1''"

definition r_joined :: redis where
  "r_joined = fst (joinSession (fst (joinSession r_created ''123456'' ''Alice'' ''p1''))
                     ''123456'' ''Bob'' ''p2'')"

definition r_started :: redis where
  "r_started = fst (startGame r_joined 500 ''123456'')"

definition r_question1 :: redis where
  "r_question1 = fst (nextQuestion db1 r_started 1000 ''123456'')"

text \<open>
  A quiz whose second question was saved with a time limit of \<open>0\<close> seconds (the route
  that creates a quiz stores \<open>timeLimit\<close> as it arrives), played by one player who
  answers the first question at once.
\<close>

definition quizz_q1 :: Question where
  "quizz_q1 = \<lparr>q_id = ''z1'', q_text = ''First'', options = [''A'', ''B'', ''C'', ''D''],
               correctOptionIndex = 0, timeLimit = 20, q_order = 0\<rparr>"

definition quizz_q2 :: Question where
  "quizz_q2 = \<lparr>q_id = ''z2'', q_text = ''Second'', options = [''A'', ''B'', ''C'', ''D''],
               correctOptionIndex = 0, timeLimit = 0, q_order = 1\<rparr>"

definition dbz :: quizzes where
  "dbz = [''quiz-z'' \<mapsto> [quizz_q1, quizz_q2]]"

definition z_question1 :: redis where
  "z_question1 =
     fst (nextQuestion dbz
       (fst (startGame
         (fst (joinSession (createSession Map.empty ''654321'' ''s2'' ''quiz-z'' ''host-1'')
                ''654321'' ''Alice'' ''p1''))
         500 ''654321''))
       1000 ''654321'')"

definition z_answered1 :: redis where
  "z_answered1 = fst (submitAnswer dbz z_question1 1000 1000 ''654321'' ''p1'' 0)"

definition z_question2 :: redis where
  "z_question2 = fst (nextQuestion dbz z_answered1 2000 ''654321'')"

subsection \<open>Runs of the engine\<close>

text \<open>Successive calls of \<open>nextQuestion\<close>, one per clock reading in the list.\<close>

fun nextQuestions :: "quizzes \<Rightarrow> redis \<Rightarrow> int list \<Rightarrow> string \<Rightarrow> redis" where
  "nextQuestions db r [] joinCode = r"
| "nextQuestions db r (t # ts) joinCode =
     nextQuestions db (fst (nextQuestion db r t joinCode)) ts joinCode"

subsection \<open>More concrete games\<close>

text \<open>
  The game of the unit test of \<open>showResults\<close>: three players, the second question of
  the test quiz (correct option \<open>1\<close>), answers \<open>0\<close>, \<open>1\<close> and \<open>1\<close>.
\<close>

definition s_answered :: redis where
  "s_answered =
     fst (submitAnswer db1
       (fst (submitAnswer db1
         (fst (submitAnswer db1
           (fst (nextQuestion db1
             (fst (nextQuestion db1
               (fst (startGame
                 (fst (joinSession r_joined ''123456'' ''Carol'' ''p3''))
                 500 ''123456''))
               1000 ''123456''))
             2000 ''123456''))
           32000 32000 ''123456'' ''p1'' 0))
         32000 32000 ''123456'' ''p2'' 1))
       32000 32000 ''123456'' ''p3'' 1)"

text \<open>A quiz whose only question has two options.\<close>

definition quizt_q1 :: Question where
  "quizt_q1 = \<lparr>q_id = ''t1'', q_text = ''True or false'', options = [''True'', ''False''],
               correctOptionIndex = 0, timeLimit = 20, q_order = 0\<rparr>"

definition dbt :: quizzes where
  "dbt = [''quiz-t'' \<mapsto> [quizt_q1]]"

definition t_question1 :: redis where
  "t_question1 =
     fst (nextQuestion dbt
       (fst (startGame (createSession Map.empty ''222222'' ''s3'' ''quiz-t'' ''host-1'')
              500 ''222222''))
       1000 ''222222'')"

text \<open>
  The state of the unit test of \<open>getLeaderboard\<close>: fifteen players with the scores
  \<open>0, 100, \<dots>, 1400\<close>, written into Redis directly.
\<close>

definition fifteen :: "(string \<times> rat) list" where
  "fifteen =
     [(''player-0'', 0),
      (''player-1'', 100),
      (''player-2'', 200),
      (''player-3'', 300),
      (''player-4'', 400),
      (''player-5'', 500),
      (''player-6'', 600),
      (''player-7'', 700),
      (''player-8'', 800),
      (''player-9'', 900),
      (''player-10'', 1000),
      (''player-11'', 1100),
      (''player-12'', 1200),
      (''player-13'', 1300),
      (''player-14'', 1400)]"

definition lb_store :: redis where
  "lb_store =
     [''333333'' \<mapsto>
        \<lparr>sessionId = ''s4'', quizId = ''quiz-1'', hostId = ''host-1'', status = WAITING,
         currentQuestionIndex = - 1,
         players = map (\<lambda>(n, s). (n, \<lparr>p_id = n, nickname = n, score = Some s\<rparr>)) fifteen,
         answers = [], questionStartTime = None, startTime = None\<rparr>]"

subsection \<open>Reachable states\<close>

text \<open>
  The operations that change a session, as commands, and the session reached from
  \<open>createSession\<close> by a list of them. A second \<open>createSession\<close> that draws the same join
  code would start another session and is not a command.
\<close>

datatype command =
    Join string string
  | Start int
  | Next int
  | Submit int int string int
  | Show
  | End

fun perform :: "quizzes \<Rightarrow> string \<Rightarrow> redis \<Rightarrow> command \<Rightarrow> redis" where
  "perform db joinCode r (Join nick pid) = fst (joinSession r joinCode nick pid)"
| "perform db joinCode r (Start now) = fst (startGame r now joinCode)"
| "perform db joinCode r (Next now) = fst (nextQuestion db r now joinCode)"
| "perform db joinCode r (Submit now now' pid oi) =
     fst (submitAnswer db r now now' joinCode pid oi)"
| "perform db joinCode r Show = fst (showResults db r joinCode)"
| "perform db joinCode r End = endGame r joinCode"

definition play ::
  "quizzes \<Rightarrow> redis \<Rightarrow> string \<Rightarrow> string \<Rightarrow> string \<Rightarrow> string \<Rightarrow> command list \<Rightarrow> redis" where
  "play db r0 joinCode sid quiz host cs =
     foldl (perform db joinCode) (createSession r0 joinCode sid quiz host) cs"

text \<open>What holds of \<open>currentQuestionIndex\<close> in every reachable state.\<close>

definition index_ok :: "quizzes \<Rightarrow> GameState \<Rightarrow> bool" where
  "index_ok db state \<longleftrightarrow>
     - 1 \<le> currentQuestionIndex state
     \<and> (int (length (getQuizQuestions db (quizId state))) \<le> currentQuestionIndex state
          \<longrightarrow> status state = ENDED)"

text \<open>The test quiz played to its end without players.\<close>

definition r_ended :: redis where
  "r_ended = play db1 Map.empty ''123456'' ''s1'' ''quiz-1'' ''host-1''
               [Start 500, Next 1000, Next 2000, Next 3000]"

text \<open>
  What holds of the scores in every reachable state when no question has the time limit
  \<open>0\<close>: every stored score is a number that is not negative, and in the lobby every
  score is \<open>0\<close>.
\<close>

definition scores_ok :: "GameState \<Rightarrow> bool" where
  "scores_ok state \<longleftrightarrow>
     list_all (\<lambda>(k, p). case score p of None \<Rightarrow> False | Some s \<Rightarrow> 0 \<le> s) (players state)
     \<and> (status state = WAITING \<longrightarrow> list_all (\<lambda>(k, p). score p = Some 0) (players state))"

text \<open>A player whose id is \<open>constructor\<close> joins; the first question is shown.\<close>

definition c_question1 :: redis where
  "c_question1 = play db1 Map.empty ''777777'' ''s5'' ''quiz-1'' ''host-1''
                   [Join ''Carl'' ''constructor'', Start 500, Next 1000]"

subsection \<open>Two calls of \<open>submitAnswer\<close> on one session\<close>

text \<open>
  Redis sees a call of \<open>submitAnswer\<close> as a \<open>get\<close> and, later, a \<open>set\<close>; the call
  awaits the database in between. \<open>submitAnswer_set\<close> is the call from the state its
  \<open>get\<close> returned: all of \<open>submitAnswer\<close> but the read.
\<close>

definition submitAnswer_set ::
  "quizzes \<Rightarrow> redis \<Rightarrow> GameState option \<Rightarrow> int \<Rightarrow> int \<Rightarrow> string \<Rightarrow> string \<Rightarrow> int
     \<Rightarrow> redis \<times> (error + bool \<times> number)" where
  "submitAnswer_set db r seen now now' joinCode pid oi =
     (case seen of
        None \<Rightarrow> (r, Inl Session_not_found)
      | Some state \<Rightarrow>
          (case submitAnswer_local db state now now' pid oi of
             Inl e \<Rightarrow> (r, Inl e)
           | Inr (state', res) \<Rightarrow> (r(joinCode \<mapsto> state'), Inr res)))"

text \<open>Two calls, the second started when the first has returned.\<close>

definition submitAnswer_twice ::
  "quizzes \<Rightarrow> redis \<Rightarrow> string \<Rightarrow> int \<times> int \<times> string \<times> int \<Rightarrow> int \<times> int \<times> string \<times> int
     \<Rightarrow> redis \<times> (error + bool \<times> number) \<times> (error + bool \<times> number)" where
  "submitAnswer_twice db r joinCode a b =
     (case (a, b) of ((now1, now1', pid1, oi1), (now2, now2', pid2, oi2)) \<Rightarrow>
        let first = submitAnswer db r now1 now1' joinCode pid1 oi1;
            second = submitAnswer db (fst first) now2 now2' joinCode pid2 oi2
        in (fst second, snd first, snd second))"

text \<open>
  Two calls that overlap: both reads are served before either write arrives. The engine
  takes no lock and compares no version, so Redis accepts this order.
\<close>

definition submitAnswer_overlapped ::
  "quizzes \<Rightarrow> redis \<Rightarrow> string \<Rightarrow> int \<times> int \<times> string \<times> int \<Rightarrow> int \<times> int \<times> string \<times> int
     \<Rightarrow> redis \<times> (error + bool \<times> number) \<times> (error + bool \<times> number)" where
  "submitAnswer_overlapped db r joinCode a b =
     (case (a, b) of ((now1, now1', pid1, oi1), (now2, now2', pid2, oi2)) \<Rightarrow>
        let seen1 = getSession r joinCode;
            seen2 = getSession r joinCode;
            first = submitAnswer_set db r seen1 now1 now1' joinCode pid1 oi1;
            second = submitAnswer_set db (fst first) seen2 now2 now2' joinCode pid2 oi2
        in (fst second, snd first, snd second))"

section \<open>Properties\<close>

subsection \<open>Assignment to a dictionary\<close>

lemma assign_split:
  assumes "map_of al k = None" and "k \<noteq> ''__proto__''"
  shows "\<exists>xs ys. al = xs @ ys \<and> assign k v al = xs @ (k, v) # ys"
proof (cases "array_index k")
  case None
  with assms have "assign k v al = al @ (k, v) # []" by (simp add: assign_def)
  moreover have "al = al @ []" by simp
  ultimately show ?thesis by blast
next
  case (Some n)
  have "al = takeWhile (index_below n) al @ dropWhile (index_below n) al" by simp
  moreover have "assign k v al
      = takeWhile (index_below n) al @ (k, v) # dropWhile (index_below n) al"
    using assms Some by (simp add: assign_def)
  ultimately show ?thesis by blast
qed

lemma map_of_assign:
  assumes "map_of al k \<noteq> None \<or> k \<noteq> ''__proto__''"
  shows "map_of (assign k v al) = (map_of al)(k \<mapsto> v)"
proof (cases "map_of al k")
  case (Some a)
  then show ?thesis by (simp add: assign_def update_conv')
next
  case None
  with assms have "k \<noteq> ''__proto__''" by simp
  from assign_split [OF None this, of v] obtain xs ys where
    s: "al = xs @ ys" and t: "assign k v al = xs @ (k, v) # ys" by blast
  from None s have "map_of xs k = None" by (auto simp: map_add_def split: option.splits)
  then show ?thesis unfolding t
    by (auto simp: s map_add_def fun_eq_iff split: option.splits)
qed

lemma assign_proto: "map_of al ''__proto__'' = None \<Longrightarrow> assign ''__proto__'' v al = al"
  by (simp add: assign_def)

lemma list_all_update:
  "list_all P al \<Longrightarrow> P (k, v) \<Longrightarrow> list_all P (AList.update k v al)"
  by (induction al) auto

lemma list_all_assign:
  assumes "list_all P al" and "P (k, v)"
  shows "list_all P (assign k v al)"
proof (cases "map_of al k")
  case (Some a)
  then have "assign k v al = AList.update k v al" by (simp add: assign_def)
  with assms show ?thesis by (simp only: list_all_update)
next
  case None
  show ?thesis
  proof (cases "k = ''__proto__''")
    case True
    with None have "assign k v al = al" by (simp add: assign_def)
    with assms show ?thesis by simp
  next
    case False
    from assign_split [OF None False, of v] obtain xs ys where
      s: "al = xs @ ys" and t: "assign k v al = xs @ (k, v) # ys" by blast
    from assms s have "list_all P xs" "list_all P ys" by simp_all
    with assms(2) show ?thesis unfolding t by simp
  qed
qed

lemma has_member_plain:
  "k \<notin> set object_prototype_names \<Longrightarrow> has_member al k \<longleftrightarrow> map_of al k \<noteq> None"
  by (simp add: has_member_def)

lemma proto_is_inherited: "''__proto__'' \<in> set object_prototype_names"
  by (simp add: object_prototype_names_def)

lemmas dictionary_simps =
  assign_def has_member_def object_prototype_names_def array_index_def index_below_def
  decimal_def

text \<open>
  Three properties of objects that the model keeps: array indices are listed first, in
  ascending order; a player who joins with the id \<open>__proto__\<close> is not stored; a lookup
  finds \<open>constructor\<close> in an empty object.
\<close>

lemma assign_lists_array_indices_first:
  "map fst (assign ''2'' c (assign ''10'' b (assign ''p1'' (a :: nat) [])))
     = [''2'', ''10'', ''p1'']"
  by (simp add: dictionary_simps)

lemma joinSession_proto_stores_no_player:
  "map_option players
     (getSession (fst (joinSession (createSession Map.empty ''123456'' ''s1'' ''quiz-1'' ''host-1'')
                         ''123456'' ''Eve'' ''__proto__'')) ''123456'') = Some []"
  by (simp add: joinSession_def createSession_def getSession_def dictionary_simps Let_def)

lemma has_member_constructor: "has_member [] ''constructor''"
  by (simp add: dictionary_simps)

subsection \<open>Evaluating the concrete games\<close>

lemma floor_half: "\<lfloor>rat_of_int n + 1 / 2\<rfloor> = n"
  by (rule floor_unique) simp_all

lemma getQuizQuestions_db1: "getQuizQuestions db1 ''quiz-1'' = [quiz1_q1, quiz1_q2]"
  by (simp add: getQuizQuestions_def db1_def quiz1_q1_def quiz1_q2_def)

lemma getQuizQuestions_dbz: "getQuizQuestions dbz ''quiz-z'' = [quizz_q1, quizz_q2]"
  by (simp add: getQuizQuestions_def dbz_def quizz_q1_def quizz_q2_def)

lemma r_started_state:
  "r_started ''123456'' =
     Some \<lparr>sessionId = ''s1'', quizId = ''quiz-1'', hostId = ''host-1'',
           status = ACTIVE, currentQuestionIndex = - 1,
           players = [(''p1'', \<lparr>p_id = ''p1'', nickname = ''Alice'', score = Some 0\<rparr>),
                      (''p2'', \<lparr>p_id = ''p2'', nickname = ''Bob'', score = Some 0\<rparr>)],
           answers = [], questionStartTime = None, startTime = Some 500\<rparr>"
  by (simp add: r_started_def r_joined_def r_created_def createSession_def
      joinSession_def dictionary_simps startGame_def getSession_def Let_def)

lemma r_question1_state:
  "r_question1 ''123456'' =
     Some \<lparr>sessionId = ''s1'', quizId = ''quiz-1'', hostId = ''host-1'',
           status = SHOWING_QUESTION, currentQuestionIndex = 0,
           players = [(''p1'', \<lparr>p_id = ''p1'', nickname = ''Alice'', score = Some 0\<rparr>),
                      (''p2'', \<lparr>p_id = ''p2'', nickname = ''Bob'', score = Some 0\<rparr>)],
           answers = [], questionStartTime = Some 1000, startTime = Some 500\<rparr>"
  by (simp add: r_question1_def nextQuestion_def getSession_def r_started_state
      getQuizQuestions_db1 question_at_def Let_def)

lemma z_question1_state:
  "z_question1 ''654321'' =
     Some \<lparr>sessionId = ''s2'', quizId = ''quiz-z'', hostId = ''host-1'',
           status = SHOWING_QUESTION, currentQuestionIndex = 0,
           players = [(''p1'', \<lparr>p_id = ''p1'', nickname = ''Alice'', score = Some 0\<rparr>)],
           answers = [], questionStartTime = Some 1000, startTime = Some 500\<rparr>"
  by (simp add: z_question1_def createSession_def joinSession_def dictionary_simps startGame_def
      nextQuestion_def getSession_def getQuizQuestions_dbz question_at_def Let_def)

lemma z_answered1_state:
  "z_answered1 ''654321'' =
     Some \<lparr>sessionId = ''s2'', quizId = ''quiz-z'', hostId = ''host-1'',
           status = SHOWING_QUESTION, currentQuestionIndex = 0,
           players = [(''p1'', \<lparr>p_id = ''p1'', nickname = ''Alice'', score = Some 1500\<rparr>)],
           answers = [(''p1'', \<lparr>playerId = ''p1'', optionIndex = 0, responseTimeMs = 0\<rparr>)],
           questionStartTime = Some 1000, startTime = Some 500\<rparr>"
  using floor_half [of 1500]
  by (simp add: z_answered1_def submitAnswer_def submitAnswer_local_def dictionary_simps getSession_def z_question1_state
      getQuizQuestions_dbz question_at_def Let_def quizz_q1_def calcPoints_def js_div_def
      startOr_def addScore_def)

lemma z_question2_state:
  "z_question2 ''654321'' =
     Some \<lparr>sessionId = ''s2'', quizId = ''quiz-z'', hostId = ''host-1'',
           status = SHOWING_QUESTION, currentQuestionIndex = 1,
           players = [(''p1'', \<lparr>p_id = ''p1'', nickname = ''Alice'', score = Some 1500\<rparr>)],
           answers = [], questionStartTime = Some 2000, startTime = Some 500\<rparr>"
  by (simp add: z_question2_def nextQuestion_def getSession_def z_answered1_state
      getQuizQuestions_dbz question_at_def Let_def)

subsection \<open>The scoring rule\<close>

lemma calcPoints_correct:
  assumes "0 < limit"
  shows "calcPoints True rtMs limit = Fin (of_int (spec_points rtMs limit))"
  using assms by (simp add: calcPoints_def js_div_def spec_points_def round_def)

lemma round_bonus_bounds:
  fixes b :: rat
  assumes "0 \<le> b" "b \<le> 1"
  shows "1000 \<le> \<lfloor>1000 + b * 500 + 1 / 2\<rfloor> \<and> \<lfloor>1000 + b * 500 + 1 / 2\<rfloor> \<le> 1500"
proof -
  have "rat_of_int 1000 \<le> 1000 + b * 500 + 1 / 2" using assms(1) by simp
  then have lo: "1000 \<le> \<lfloor>1000 + b * 500 + 1 / 2\<rfloor>" by (simp only: le_floor_iff)
  have "1000 + b * 500 + 1 / 2 < rat_of_int 1501" using assms(2) by simp
  then have "\<lfloor>1000 + b * 500 + 1 / 2\<rfloor> < 1501" by (simp only: floor_less_iff)
  with lo show ?thesis by simp
qed

lemma spec_points_bounds:
  assumes "0 < limit" "0 \<le> rtMs"
  shows "1000 \<le> spec_points rtMs limit \<and> spec_points rtMs limit \<le> 1500"
proof -
  have "0 \<le> rat_of_int rtMs / (rat_of_int limit * 1000)" using assms by simp
  then have "0 \<le> max 0 (1 - rat_of_int rtMs / (rat_of_int limit * 1000))"
    and "max 0 (1 - rat_of_int rtMs / (rat_of_int limit * 1000)) \<le> 1" by auto
  from round_bonus_bounds [OF this] show ?thesis by (simp add: spec_points_def round_def)
qed

lemma spec_points_zero: "0 < limit \<Longrightarrow> spec_points 0 limit = 1500"
  using floor_half [of 1500] by (simp add: spec_points_def round_def)

lemma spec_points_late:
  assumes "0 < limit" "limit * 1000 \<le> rtMs"
  shows "spec_points rtMs limit = 1000"
proof -
  have "rat_of_int (limit * 1000) \<le> rat_of_int rtMs"
    using assms(2) by (simp only: of_int_le_iff)
  then have "1 \<le> rat_of_int rtMs / (rat_of_int limit * 1000)"
    using assms(1) by (simp add: le_divide_eq)
  then have "max 0 (1 - rat_of_int rtMs / (rat_of_int limit * 1000)) = 0" by simp
  then show ?thesis using floor_half [of 1000] by (simp add: spec_points_def round_def)
qed

text \<open>
  Where the rule is well defined. A successful \<open>submitAnswer\<close> returns \<open>correct\<close> exactly
  when the option is the question's \<open>correctOptionIndex\<close>, and a wrong answer scores \<open>0\<close>.
  A correct answer to a question with a positive time limit, given at a non-negative
  response time, scores what the rule of the specification says: a value in
  \<open>[1000, 1500]\<close>, in \<open>[1400, 1500]\<close> at response time \<open>0\<close>, and exactly \<open>1000\<close> once the
  response time has reached the time limit.
\<close>

lemma submitAnswer_score_in_domain:
  assumes "getSession r joinCode = Some state"
    and "question_at (getQuizQuestions db (quizId state)) (currentQuestionIndex state)
           = Some question"
    and "snd (submitAnswer db r now now' joinCode pid oi) = Inr (correct, points)"
    and "rtMs = now - startOr (questionStartTime state) now'"
  shows "correct = (oi = correctOptionIndex question)
       \<and> (oi = correctOptionIndex question \<and> 0 < timeLimit question \<and> 0 \<le> rtMs \<longrightarrow>
            points = Fin (of_int (spec_points rtMs (timeLimit question)))
            \<and> in_range 1000 1500 points
            \<and> (rtMs = 0 \<longrightarrow> in_range 1400 1500 points)
            \<and> (timeLimit question * 1000 \<le> rtMs \<longrightarrow> points = Fin 1000))
       \<and> (oi \<noteq> correctOptionIndex question \<longrightarrow> points = Fin 0)"
proof -
  from assms have res: "correct = (oi = correctOptionIndex question)"
    "points = calcPoints (oi = correctOptionIndex question) rtMs (timeLimit question)"
    by (auto simp: submitAnswer_def submitAnswer_local_def Let_def
        split: if_splits option.splits)
  show ?thesis
  proof (intro conjI impI)
    show "correct = (oi = correctOptionIndex question)" by (rule res(1))
  next
    assume "oi \<noteq> correctOptionIndex question"
    then show "points = Fin 0" using res by (simp add: calcPoints_def)
  next
    assume h: "oi = correctOptionIndex question \<and> 0 < timeLimit question \<and> 0 \<le> rtMs"
    from h res have p: "points = Fin (of_int (spec_points rtMs (timeLimit question)))"
      by (simp add: calcPoints_correct)
    then show "points = Fin (of_int (spec_points rtMs (timeLimit question)))" .
    from h spec_points_bounds [of "timeLimit question" rtMs] p
    show "in_range 1000 1500 points" by (simp add: in_range_def)
    { assume "rtMs = 0"
      with h p spec_points_zero [of "timeLimit question"]
      show "in_range 1400 1500 points" by (simp add: in_range_def) }
    { assume "timeLimit question * 1000 \<le> rtMs"
      with h p spec_points_late [of "timeLimit question" rtMs]
      show "points = Fin 1000" by simp }
  qed
qed

text \<open>
  C1 says that every successful \<open>submitAnswer\<close> with the correct option returns a score
  in \<open>[1000, 1500]\<close>, the comment on line 244 says "base 1000 points ... max 500 extra",
  and the route that updates a quiz refuses a time limit below \<open>1\<close>. The engine divides
  by \<open>timeLimit * 1000\<close> unchecked. The second question of \<open>quiz-z\<close> was created with the
  time limit \<open>0\<close>; Alice's correct answer in the millisecond the question started
  divides \<open>0\<close> by \<open>0\<close>, and the call succeeds with the score \<open>NaN\<close>, which is no value of
  \<open>[1000, 1500]\<close>.
\<close>

theorem submitAnswer_score_not_a_number:
  "snd (submitAnswer dbz z_question2 2000 2000 ''654321'' ''p1'' 0) = Inr (True, NaN)
   \<and> \<not> in_range 1000 1500 NaN"
  by (simp add: submitAnswer_def submitAnswer_local_def dictionary_simps getSession_def
      z_question2_state getQuizQuestions_dbz question_at_def Let_def quizz_q2_def
      calcPoints_def js_div_def startOr_def in_range_def)

subsection \<open>Failures of \<open>submitAnswer\<close>\<close>

lemma not_has_member:
  assumes "\<not> has_member al k"
  shows "map_of al k = None" and "k \<notin> set object_prototype_names" and "k \<noteq> ''__proto__''"
  using assms proto_is_inherited by (auto simp: has_member_def)

lemma map_of_assign_new:
  "\<not> has_member al k \<Longrightarrow> map_of (assign k v al) = (map_of al)(k \<mapsto> v)"
  by (rule map_of_assign) (simp add: not_has_member(3))

lemma submitAnswer_local_Inr:
  assumes "submitAnswer_local db state now now' pid oi = Inr (state', correct, points)"
  shows "status state = SHOWING_QUESTION" and "\<not> has_member (answers state) pid"
    and "\<exists>question.
           question_at (getQuizQuestions db (quizId state)) (currentQuestionIndex state)
             = Some question
           \<and> correct = (oi = correctOptionIndex question)
           \<and> points = calcPoints correct (now - startOr (questionStartTime state) now')
                        (timeLimit question)"
    and "state' = state\<lparr>
           answers := assign pid
             \<lparr>playerId = pid, optionIndex = oi,
              responseTimeMs = now - startOr (questionStartTime state) now'\<rparr> (answers state),
           players := (case map_of (players state) pid of
               None \<Rightarrow> players state
             | Some p \<Rightarrow> AList.update pid (addScore points p) (players state))\<rparr>"
  using assms
  by (auto simp: submitAnswer_local_def Let_def split: if_splits option.splits)

lemma submitAnswer_local_succeeds:
  assumes "status state = SHOWING_QUESTION" and "\<not> has_member (answers state) pid"
    and "question_at (getQuizQuestions db (quizId state)) (currentQuestionIndex state)
           = Some question"
  shows "\<exists>state'. submitAnswer_local db state now now' pid oi =
           Inr (state', oi = correctOptionIndex question,
                calcPoints (oi = correctOptionIndex question)
                  (now - startOr (questionStartTime state) now') (timeLimit question))"
  using assms by (simp add: submitAnswer_local_def Let_def)

lemma submitAnswer_Inr:
  assumes "snd (submitAnswer db r now now' joinCode pid oi) = Inr res"
  shows "\<exists>state state'. getSession r joinCode = Some state
           \<and> submitAnswer_local db state now now' pid oi = Inr (state', res)
           \<and> fst (submitAnswer db r now now' joinCode pid oi) = r(joinCode \<mapsto> state')"
  using assms by (auto simp: submitAnswer_def split: option.splits sum.splits)

text \<open>
  The outcomes of \<open>submitAnswer\<close>, in the order of its checks. It fails with "Session
  not found" exactly when Redis holds no state for the join code; with "Not accepting
  answers" when the state exists and its status is not \<open>SHOWING_QUESTION\<close>; with "Already
  answered" when, in that status, the lookup \<open>answers[playerId]\<close> finds something; each
  failure leaves Redis as it was. When the lookup finds nothing and the question exists,
  the call succeeds. After a call that succeeded, every further call by the same player
  fails with "Already answered" and leaves Redis as the first call left it, where the
  player's score is the score before the first call plus its points.
\<close>

lemma submitAnswer_outcomes:
  "(snd (submitAnswer db r now now' joinCode pid oi) = Inl Session_not_found
      \<longleftrightarrow> getSession r joinCode = None)
   \<and> (\<forall>state. getSession r joinCode = Some state \<and> status state \<noteq> SHOWING_QUESTION
        \<longrightarrow> submitAnswer db r now now' joinCode pid oi = (r, Inl Not_accepting_answers))
   \<and> (\<forall>state. getSession r joinCode = Some state \<and> status state = SHOWING_QUESTION
          \<and> has_member (answers state) pid
        \<longrightarrow> submitAnswer db r now now' joinCode pid oi = (r, Inl Already_answered))
   \<and> (\<forall>state question. getSession r joinCode = Some state \<and> status state = SHOWING_QUESTION
          \<and> \<not> has_member (answers state) pid
          \<and> question_at (getQuizQuestions db (quizId state)) (currentQuestionIndex state)
               = Some question
        \<longrightarrow> (\<exists>res. snd (submitAnswer db r now now' joinCode pid oi) = Inr res))
   \<and> (\<forall>res. snd (submitAnswer db r now now' joinCode pid oi) = Inr res
        \<longrightarrow> (\<forall>t t' oi'.
               submitAnswer db (fst (submitAnswer db r now now' joinCode pid oi))
                 t t' joinCode pid oi'
               = (fst (submitAnswer db r now now' joinCode pid oi), Inl Already_answered)))
   \<and> (\<forall>state p correct points. getSession r joinCode = Some state
          \<and> map_of (players state) pid = Some p
          \<and> snd (submitAnswer db r now now' joinCode pid oi) = Inr (correct, points)
        \<longrightarrow> (\<exists>state'. fst (submitAnswer db r now now' joinCode pid oi) joinCode = Some state'
               \<and> map_of (players state') pid
                   = Some (p\<lparr>score := toJSON (js_add (toNumber (score p)) points)\<rparr>)))"
proof (intro conjI allI impI)
  show "snd (submitAnswer db r now now' joinCode pid oi) = Inl Session_not_found
      \<longleftrightarrow> getSession r joinCode = None"
    by (auto simp: submitAnswer_def submitAnswer_local_def Let_def
        split: option.splits sum.splits if_splits)
next
  fix state assume "getSession r joinCode = Some state \<and> status state \<noteq> SHOWING_QUESTION"
  then show "submitAnswer db r now now' joinCode pid oi = (r, Inl Not_accepting_answers)"
    by (simp add: submitAnswer_def submitAnswer_local_def)
next
  fix state assume "getSession r joinCode = Some state \<and> status state = SHOWING_QUESTION
          \<and> has_member (answers state) pid"
  then show "submitAnswer db r now now' joinCode pid oi = (r, Inl Already_answered)"
    by (simp add: submitAnswer_def submitAnswer_local_def)
next
  fix state question
  assume h: "getSession r joinCode = Some state \<and> status state = SHOWING_QUESTION
          \<and> \<not> has_member (answers state) pid
          \<and> question_at (getQuizQuestions db (quizId state)) (currentQuestionIndex state)
               = Some question"
  then obtain state' where
    "submitAnswer_local db state now now' pid oi =
           Inr (state', oi = correctOptionIndex question,
                calcPoints (oi = correctOptionIndex question)
                  (now - startOr (questionStartTime state) now') (timeLimit question))"
    using submitAnswer_local_succeeds [of state pid db question now now' oi] by blast
  with h show "\<exists>res. snd (submitAnswer db r now now' joinCode pid oi) = Inr res"
    by (simp add: submitAnswer_def)
next
  fix res t t' oi'
  assume ok: "snd (submitAnswer db r now now' joinCode pid oi) = Inr res"
  from submitAnswer_Inr [OF ok] obtain state state' where s:
    "getSession r joinCode = Some state"
    "submitAnswer_local db state now now' pid oi = Inr (state', res)"
    "fst (submitAnswer db r now now' joinCode pid oi) = r(joinCode \<mapsto> state')"
    by blast
  obtain correct points where res: "res = (correct, points)" by (cases res)
  note l = submitAnswer_local_Inr [OF s(2) [unfolded res]]
  have "status state' = SHOWING_QUESTION" using l(1,4) by simp
  moreover have "has_member (answers state') pid"
    using l(4) by (simp add: has_member_def map_of_assign_new [OF l(2)])
  ultimately have "submitAnswer db (r(joinCode \<mapsto> state')) t t' joinCode pid oi'
               = (r(joinCode \<mapsto> state'), Inl Already_answered)"
    by (simp add: submitAnswer_def submitAnswer_local_def getSession_def)
  then show "submitAnswer db (fst (submitAnswer db r now now' joinCode pid oi))
                 t t' joinCode pid oi'
               = (fst (submitAnswer db r now now' joinCode pid oi), Inl Already_answered)"
    by (simp only: s(3))
next
  fix state p correct points
  assume h: "getSession r joinCode = Some state \<and> map_of (players state) pid = Some p
          \<and> snd (submitAnswer db r now now' joinCode pid oi) = Inr (correct, points)"
  from submitAnswer_Inr [of db r now now' joinCode pid oi "(correct, points)"] h
  obtain state' where s:
    "submitAnswer_local db state now now' pid oi = Inr (state', correct, points)"
    "fst (submitAnswer db r now now' joinCode pid oi) = r(joinCode \<mapsto> state')"
    by auto
  from submitAnswer_local_Inr(4) [OF s(1)] h
  have "map_of (players state') pid = Some (addScore points p)"
    by (simp add: update_conv')
  then show "\<exists>state'. fst (submitAnswer db r now now' joinCode pid oi) joinCode = Some state'
               \<and> map_of (players state') pid
                   = Some (p\<lparr>score := toJSON (js_add (toNumber (score p)) points)\<rparr>)"
    by (simp add: s(2) addScore_def)
qed

text \<open>The scores add up: Alice's second correct answer is added to her first.\<close>

lemma submitAnswer_accumulates:
  "map_option (\<lambda>state. map_option score (map_of (players state) ''p1''))
     (getSession (play db1 Map.empty ''123456'' ''s1'' ''quiz-1'' ''host-1''
        [Join ''Alice'' ''p1'', Start 500, Next 1000, Submit 6000 6000 ''p1'' 0,
         Show, Next 10000, Submit 25000 25000 ''p1'' 1]) ''123456'')
     = Some (Some (Some 2625))"
  using floor_half [of 1375] floor_half [of 1250]
  by (simp add: play_def createSession_def joinSession_def startGame_def nextQuestion_def
      submitAnswer_def submitAnswer_local_def showResults_def dictionary_simps getSession_def
      getQuizQuestions_db1 question_at_def Let_def quiz1_q1_def quiz1_q2_def calcPoints_def
      js_div_def startOr_def addScore_def)

text \<open>
  C5 says that of two calls by the same player during one question the first succeeds
  and the second fails with "Already answered". The check on line 235 is the lookup
  \<open>state.answers[playerId]\<close> on a plain object, which also finds what every object
  inherits. The player who joined with the id \<open>constructor\<close> is listed in \<open>players\<close>, the
  first question is shown and \<open>answers\<close> is empty, yet the player's first answer is
  refused with "Already answered" and nothing is stored.
\<close>

theorem submitAnswer_first_call_refused:
  "map_option (\<lambda>state. (status state, map fst (players state), answers state))
     (getSession c_question1 ''777777'') = Some (SHOWING_QUESTION, [''constructor''], [])
   \<and> submitAnswer db1 c_question1 6000 6000 ''777777'' ''constructor'' 0
       = (c_question1, Inl Already_answered)"
  by (simp add: c_question1_def play_def createSession_def joinSession_def startGame_def
      nextQuestion_def submitAnswer_def submitAnswer_local_def dictionary_simps
      getSession_def getQuizQuestions_db1 question_at_def Let_def)

subsection \<open>Stepping through the questions\<close>

lemma nextQuestion_step:
  assumes "getSession r joinCode = Some state"
  shows "nextQuestion db r t joinCode =
     (r(joinCode \<mapsto> state\<lparr>currentQuestionIndex := currentQuestionIndex state + 1,
          answers := [], questionStartTime := Some t,
          status := (if question_at (getQuizQuestions db (quizId state))
                          (currentQuestionIndex state + 1) = None
                     then ENDED else SHOWING_QUESTION)\<rparr>),
      Inr (state\<lparr>currentQuestionIndex := currentQuestionIndex state + 1,
          answers := [], questionStartTime := Some t,
          status := (if question_at (getQuizQuestions db (quizId state))
                          (currentQuestionIndex state + 1) = None
                     then ENDED else SHOWING_QUESTION)\<rparr>,
        question_at (getQuizQuestions db (quizId state)) (currentQuestionIndex state + 1),
        length (getQuizQuestions db (quizId state))))"
  using assms by (simp add: nextQuestion_def Let_def)

lemma nextQuestion_some:
  assumes "getSession r joinCode = Some state"
    and "question_at (getQuizQuestions db (quizId state)) (currentQuestionIndex state + 1)
           = Some question"
  shows "nextQuestion db r t joinCode =
     (r(joinCode \<mapsto> state\<lparr>currentQuestionIndex := currentQuestionIndex state + 1,
          answers := [], questionStartTime := Some t, status := SHOWING_QUESTION\<rparr>),
      Inr (state\<lparr>currentQuestionIndex := currentQuestionIndex state + 1,
          answers := [], questionStartTime := Some t, status := SHOWING_QUESTION\<rparr>,
        Some question, length (getQuizQuestions db (quizId state))))"
  using assms by (simp add: nextQuestion_def Let_def)

lemma nextQuestion_none:
  assumes "getSession r joinCode = Some state"
    and "question_at (getQuizQuestions db (quizId state)) (currentQuestionIndex state + 1)
           = None"
  shows "nextQuestion db r t joinCode =
     (r(joinCode \<mapsto> state\<lparr>currentQuestionIndex := currentQuestionIndex state + 1,
          answers := [], questionStartTime := Some t, status := ENDED\<rparr>),
      Inr (state\<lparr>currentQuestionIndex := currentQuestionIndex state + 1,
          answers := [], questionStartTime := Some t, status := ENDED\<rparr>,
        None, length (getQuizQuestions db (quizId state))))"
  using assms by (simp add: nextQuestion_def Let_def)

lemma nextQuestions_index:
  assumes "getSession r joinCode = Some state"
  shows "\<exists>state'. getSession (nextQuestions db r ts joinCode) joinCode = Some state'
           \<and> currentQuestionIndex state' = currentQuestionIndex state + int (length ts)
           \<and> quizId state' = quizId state"
  using assms
proof (induction ts arbitrary: r state)
  case Nil
  then show ?case by simp
next
  case (Cons t ts)
  let ?s = "state\<lparr>currentQuestionIndex := currentQuestionIndex state + 1,
          answers := [], questionStartTime := Some t,
          status := (if question_at (getQuizQuestions db (quizId state))
                          (currentQuestionIndex state + 1) = None
                     then ENDED else SHOWING_QUESTION)\<rparr>"
  have "getSession (fst (nextQuestion db r t joinCode)) joinCode = Some ?s"
    by (simp add: nextQuestion_step [OF Cons.prems] getSession_def)
  from Cons.IH [OF this] show ?case by auto
qed

lemma nextQuestions_after_start:
  assumes "getSession r joinCode = Some state"
  shows "\<exists>s. getSession (nextQuestions db (fst (startGame r t0 joinCode)) ts joinCode) joinCode
               = Some s
           \<and> currentQuestionIndex s = int (length ts) - 1 \<and> quizId s = quizId state"
proof -
  let ?s0 = "state\<lparr>status := ACTIVE, startTime := Some t0, currentQuestionIndex := - 1\<rparr>"
  have "getSession (fst (startGame r t0 joinCode)) joinCode = Some ?s0"
    using assms by (simp add: startGame_def getSession_def Let_def)
  from nextQuestions_index [OF this, of db ts] show ?thesis by auto
qed

text \<open>
  C6. Let the quiz of a stored session have \<open>N \<ge> 1\<close> questions; \<open>getQuizQuestions\<close>
  returns them in ascending \<open>order\<close>. After \<open>startGame\<close>, the call of \<open>nextQuestion\<close>
  that follows \<open>k - 1 < N\<close> earlier calls (their clock readings are \<open>ts\<close>) returns the
  \<open>k\<close>-th question and \<open>totalQuestions = N\<close>, and stores and returns a state with status
  \<open>SHOWING_QUESTION\<close>, \<open>currentQuestionIndex = k - 1\<close>, no answers and
  \<open>questionStartTime\<close> set to the time of the call. The call after \<open>N\<close> earlier calls
  returns no question and leaves the status \<open>ENDED\<close>.
\<close>

theorem nextQuestion_sequence:
  assumes "getSession r joinCode = Some state"
    and "questions = getQuizQuestions db (quizId state)"
    and "1 \<le> length questions"
    and "r0 = fst (startGame r t0 joinCode)"
  shows "sorted (map q_order questions)
    \<and> (\<forall>ts t. length ts < length questions \<longrightarrow>
           (\<exists>state'. nextQuestion db (nextQuestions db r0 ts joinCode) t joinCode
                = ((nextQuestions db r0 ts joinCode)(joinCode \<mapsto> state'),
                   Inr (state', Some (questions ! length ts), length questions))
              \<and> status state' = SHOWING_QUESTION
              \<and> currentQuestionIndex state' = int (length ts)
              \<and> answers state' = []
              \<and> questionStartTime state' = Some t))
    \<and> (\<forall>ts t. length ts = length questions \<longrightarrow>
           (\<exists>state'. nextQuestion db (nextQuestions db r0 ts joinCode) t joinCode
                = ((nextQuestions db r0 ts joinCode)(joinCode \<mapsto> state'),
                   Inr (state', None, length questions))
              \<and> status state' = ENDED))"
proof (intro conjI allI impI)
  show "sorted (map q_order questions)"
    by (simp add: assms(2) getQuizQuestions_def split: option.splits)
next
  fix ts :: "int list" and t :: int
  assume len: "length ts < length questions"
  from nextQuestions_after_start [OF assms(1), of db t0 ts] obtain s where s:
    "getSession (nextQuestions db r0 ts joinCode) joinCode = Some s"
    "currentQuestionIndex s = int (length ts) - 1" "quizId s = quizId state"
    unfolding assms(4) by blast
  have q: "question_at (getQuizQuestions db (quizId s)) (currentQuestionIndex s + 1)
             = Some (questions ! length ts)"
    using len by (simp add: s(2,3) assms(2) question_at_def)
  show "\<exists>state'. nextQuestion db (nextQuestions db r0 ts joinCode) t joinCode
              = ((nextQuestions db r0 ts joinCode)(joinCode \<mapsto> state'),
                 Inr (state', Some (questions ! length ts), length questions))
            \<and> status state' = SHOWING_QUESTION
            \<and> currentQuestionIndex state' = int (length ts)
            \<and> answers state' = []
            \<and> questionStartTime state' = Some t"
    by (simp add: nextQuestion_some [OF s(1) q] s(2)) (simp add: s(3) assms(2))
next
  fix ts :: "int list" and t :: int
  assume len: "length ts = length questions"
  from nextQuestions_after_start [OF assms(1), of db t0 ts] obtain s where s:
    "getSession (nextQuestions db r0 ts joinCode) joinCode = Some s"
    "currentQuestionIndex s = int (length ts) - 1" "quizId s = quizId state"
    unfolding assms(4) by blast
  have q: "question_at (getQuizQuestions db (quizId s)) (currentQuestionIndex s + 1) = None"
    using len by (simp add: s(2,3) assms(2) [symmetric] question_at_def)
  show "\<exists>state'. nextQuestion db (nextQuestions db r0 ts joinCode) t joinCode
              = ((nextQuestions db r0 ts joinCode)(joinCode \<mapsto> state'),
                 Inr (state', None, length questions))
            \<and> status state' = ENDED"
    by (simp add: nextQuestion_none [OF s(1) q]) (simp add: s(3) assms(2))
qed

lemma r_joined_state:
  "r_joined ''123456'' =
     Some \<lparr>sessionId = ''s1'', quizId = ''quiz-1'', hostId = ''host-1'',
           status = WAITING, currentQuestionIndex = - 1,
           players = [(''p1'', \<lparr>p_id = ''p1'', nickname = ''Alice'', score = Some 0\<rparr>),
                      (''p2'', \<lparr>p_id = ''p2'', nickname = ''Bob'', score = Some 0\<rparr>)],
           answers = [], questionStartTime = None, startTime = None\<rparr>"
  by (simp add: r_joined_def r_created_def createSession_def joinSession_def dictionary_simps
      Let_def)

text \<open>
  Witness for C6: the test quiz has two questions; the second call returns the second
  question and the third call ends the game.
\<close>

theorem nextQuestion_sequence_witness:
  "getSession r_joined ''123456'' \<noteq> None
   \<and> getQuizQuestions db1 ''quiz-1'' = [quiz1_q1, quiz1_q2]
   \<and> (\<exists>state'. snd (nextQuestion db1 (nextQuestions db1 r_started [1000] ''123456'')
                        2000 ''123456'') = Inr (state', Some quiz1_q2, 2)
          \<and> status state' = SHOWING_QUESTION \<and> currentQuestionIndex state' = 1)
   \<and> (\<exists>state'. snd (nextQuestion db1 (nextQuestions db1 r_started [1000, 2000] ''123456'')
                        3000 ''123456'') = Inr (state', None, 2)
          \<and> status state' = ENDED)"
proof -
  have g: "getSession r_joined ''123456'' = Some (the (r_joined ''123456''))"
    by (simp add: getSession_def r_joined_state)
  have q: "[quiz1_q1, quiz1_q2] = getQuizQuestions db1 (quizId (the (r_joined ''123456'')))"
    by (simp add: r_joined_state getQuizQuestions_db1)
  have n: "1 \<le> length [quiz1_q1, quiz1_q2]" by simp
  note t = nextQuestion_sequence [OF g q n r_started_def]
  have l1: "length [1000::int] < length [quiz1_q1, quiz1_q2]" by simp
  have l2: "length [1000::int, 2000] = length [quiz1_q1, quiz1_q2]" by simp
  from t [THEN conjunct2, THEN conjunct1, rule_format, OF l1, of 2000]
  have a: "\<exists>state'. snd (nextQuestion db1 (nextQuestions db1 r_started [1000] ''123456'')
                        2000 ''123456'') = Inr (state', Some quiz1_q2, 2)
          \<and> status state' = SHOWING_QUESTION \<and> currentQuestionIndex state' = 1"
    by auto
  from t [THEN conjunct2, THEN conjunct2, rule_format, OF l2, of 3000]
  have b: "\<exists>state'. snd (nextQuestion db1 (nextQuestions db1 r_started [1000, 2000] ''123456'')
                        3000 ''123456'') = Inr (state', None, 2)
          \<and> status state' = ENDED"
    by auto
  from a b g show ?thesis by (simp add: getQuizQuestions_db1)
qed

subsection \<open>The results of a question\<close>

lemma fold_countAnswer:
  "length d = 4 \<Longrightarrow>
   fold (countAnswer c) as (d, n) =
     (map (\<lambda>i. d ! i + length (filter (\<lambda>a. optionIndex a = int i) as)) [0..<4],
      n + length (filter (\<lambda>a. optionIndex a = c) as))"
proof (induction as arbitrary: d n)
  case Nil
  then show ?case by (simp add: list_eq_iff_nth_eq)
next
  case (Cons a as)
  define d' where "d' = (if 0 \<le> optionIndex a \<and> optionIndex a < 4
                then d[nat (optionIndex a) := d ! nat (optionIndex a) + 1] else d)"
  define n' where "n' = (if optionIndex a = c then n + 1 else n)"
  have step: "countAnswer c a (d, n) = (d', n')"
    by (simp add: countAnswer_def Let_def d'_def n'_def)
  have len: "length d' = 4" using Cons.prems by (simp add: d'_def)
  have "fold (countAnswer c) (a # as) (d, n) = fold (countAnswer c) as (d', n')"
    by (simp add: step)
  also have "\<dots> = (map (\<lambda>i. d' ! i + length (filter (\<lambda>a. optionIndex a = int i) as)) [0..<4],
      n' + length (filter (\<lambda>a. optionIndex a = c) as))"
    by (rule Cons.IH [OF len])
  also have "\<dots> = (map (\<lambda>i. d ! i + length (filter (\<lambda>a. optionIndex a = int i) (a # as)))
                      [0..<4],
      n + length (filter (\<lambda>a. optionIndex a = c) (a # as)))"
  proof -
    have "d' ! i = d ! i + (if optionIndex a = int i then 1 else 0)" if "i < 4" for i
      using that Cons.prems by (auto simp: d'_def nth_list_update)
    then have "map (\<lambda>i. d' ! i + length (filter (\<lambda>a. optionIndex a = int i) as)) [0..<4]
             = map (\<lambda>i. d ! i + length (filter (\<lambda>a. optionIndex a = int i) (a # as))) [0..<4]"
      by (intro map_cong) auto
    then show ?thesis by (simp add: n'_def)
  qed
  finally show ?case .
qed

lemma tally_from_zero:
  "fold (countAnswer c) as ([0, 0, 0, 0], 0) =
     (map (\<lambda>i. length (filter (\<lambda>a. optionIndex a = int i) as)) [0..<4],
      length (filter (\<lambda>a. optionIndex a = c) as))"
proof -
  have up: "[0..<4] = [0, 1, 2, 3]" by (simp add: upt_rec)
  have "length [0::nat, 0, 0, 0] = 4" by simp
  from fold_countAnswer [OF this, of c as 0] show ?thesis
    unfolding up by simp
qed

lemma showResults_found:
  assumes "getSession r joinCode = Some state"
    and "question_at (getQuizQuestions db (quizId state)) (currentQuestionIndex state)
           = Some question"
  shows "showResults db r joinCode =
      (r(joinCode \<mapsto> state\<lparr>status := SHOWING_RESULTS\<rparr>),
       Inr \<lparr>res_state = state\<lparr>status := SHOWING_RESULTS\<rparr>,
            res_correctOptionIndex = correctOptionIndex question,
            answerDistribution =
              map (\<lambda>i. length (filter (\<lambda>a. optionIndex a = int i) (map snd (answers state))))
                [0..<4],
            correctCount =
              length (filter (\<lambda>a. optionIndex a = correctOptionIndex question)
                (map snd (answers state)))\<rparr>)"
  using assms by (simp add: showResults_def Let_def tally_from_zero del: upt_Suc)

text \<open>
  C7, as the code has it. For every stored session with a question at
  \<open>currentQuestionIndex\<close>, \<open>showResults\<close> stores and returns the state with status
  \<open>SHOWING_RESULTS\<close> and nothing else changed, and returns the question's
  \<open>correctOptionIndex\<close>, an \<open>answerDistribution\<close> of exactly four entries, whatever the
  number of options, whose entry \<open>i\<close> is the number of recorded answers with
  \<open>optionIndex = i\<close>, and a \<open>correctCount\<close> that is the number of recorded answers
  whose \<open>optionIndex\<close> is the question's \<open>correctOptionIndex\<close>.
\<close>

theorem showResults_tally:
  assumes "getSession r joinCode = Some state"
    and "question_at (getQuizQuestions db (quizId state)) (currentQuestionIndex state)
           = Some question"
  shows "showResults db r joinCode =
      (r(joinCode \<mapsto> state\<lparr>status := SHOWING_RESULTS\<rparr>),
       Inr \<lparr>res_state = state\<lparr>status := SHOWING_RESULTS\<rparr>,
            res_correctOptionIndex = correctOptionIndex question,
            answerDistribution =
              map (\<lambda>i. length (filter (\<lambda>a. optionIndex a = int i) (map snd (answers state))))
                [0..<4],
            correctCount =
              length (filter (\<lambda>a. optionIndex a = correctOptionIndex question)
                (map snd (answers state)))\<rparr>)"
  using assms by (rule showResults_found)

lemma s_answered_state:
  "s_answered ''123456'' =
     Some \<lparr>sessionId = ''s1'', quizId = ''quiz-1'', hostId = ''host-1'',
           status = SHOWING_QUESTION, currentQuestionIndex = 1,
           players = [(''p1'', \<lparr>p_id = ''p1'', nickname = ''Alice'', score = Some 0\<rparr>),
                      (''p2'', \<lparr>p_id = ''p2'', nickname = ''Bob'', score = Some 1000\<rparr>),
                      (''p3'', \<lparr>p_id = ''p3'', nickname = ''Carol'', score = Some 1000\<rparr>)],
           answers =
             [(''p1'', \<lparr>playerId = ''p1'', optionIndex = 0, responseTimeMs = 30000\<rparr>),
              (''p2'', \<lparr>playerId = ''p2'', optionIndex = 1, responseTimeMs = 30000\<rparr>),
              (''p3'', \<lparr>playerId = ''p3'', optionIndex = 1, responseTimeMs = 30000\<rparr>)],
           questionStartTime = Some 2000, startTime = Some 500\<rparr>"
  using floor_half [of 1000]
  by (simp add: s_answered_def submitAnswer_def submitAnswer_local_def nextQuestion_def
      startGame_def joinSession_def dictionary_simps getSession_def r_joined_state getQuizQuestions_db1
      question_at_def Let_def quiz1_q2_def calcPoints_def js_div_def startOr_def addScore_def)

lemma t_question1_state:
  "t_question1 ''222222'' =
     Some \<lparr>sessionId = ''s3'', quizId = ''quiz-t'', hostId = ''host-1'',
           status = SHOWING_QUESTION, currentQuestionIndex = 0,
           players = [], answers = [], questionStartTime = Some 1000,
           startTime = Some 500\<rparr>"
  by (simp add: t_question1_def createSession_def startGame_def nextQuestion_def
      getSession_def getQuizQuestions_def dbt_def question_at_def Let_def)

text \<open>
  Witness for C7: recorded answers \<open>0\<close>, \<open>1\<close>, \<open>1\<close> against the correct option \<open>1\<close>
  give the distribution \<open>[1, 2, 0, 0]\<close> and the correct count \<open>2\<close>.
\<close>

theorem showResults_tally_witness:
  "snd (showResults db1 s_answered ''123456'') =
     Inr \<lparr>res_state = (the (s_answered ''123456''))\<lparr>status := SHOWING_RESULTS\<rparr>,
          res_correctOptionIndex = 1, answerDistribution = [1, 2, 0, 0], correctCount = 2\<rparr>"
proof -
  have g: "getSession s_answered ''123456'' = Some (the (s_answered ''123456''))"
    by (simp add: getSession_def s_answered_state)
  have q: "question_at (getQuizQuestions db1 (quizId (the (s_answered ''123456''))))
             (currentQuestionIndex (the (s_answered ''123456''))) = Some quiz1_q2"
    by (simp add: s_answered_state getQuizQuestions_db1 question_at_def)
  have up: "[0..<4] = [0, 1, 2, 3]" by (simp add: upt_rec)
  from showResults_tally [OF g q] show ?thesis
    unfolding up by (simp add: s_answered_state quiz1_q2_def)
qed

text \<open>
  C7 as stated fails on the size of the array: for a question with two options the
  distribution still has four entries.
\<close>

theorem showResults_four_buckets_for_two_options:
  "question_at (getQuizQuestions dbt ''quiz-t'') 0 = Some quizt_q1
   \<and> length (options quizt_q1) = 2
   \<and> map_sum id (\<lambda>res. length (answerDistribution res))
         (snd (showResults dbt t_question1 ''222222'')) = Inr 4"
  by (simp add: showResults_def getSession_def t_question1_state getQuizQuestions_def dbt_def
      question_at_def Let_def quizt_q1_def)

subsection \<open>The leaderboard\<close>

lemma ranked_descending:
  "sorted_wrt (\<lambda>a b. toNumber (score b) \<le> toNumber (score a))
     (sort_key (\<lambda>p. - toNumber (score p)) ps)"
proof -
  have "sorted (map (\<lambda>p. - toNumber (score p)) (sort_key (\<lambda>p. - toNumber (score p)) ps))"
    by (rule sorted_sort_key)
  then show ?thesis by (simp add: sorted_map)
qed

text \<open>
  C9. \<open>getLeaderboard\<close> returns the empty list when Redis holds no state for the join
  code. Otherwise it returns the first ten entries of a rearrangement of the session's
  players that is in descending order of score (a \<open>null\<close> score counts as \<open>0\<close>, as
  in the comparator): it has \<open>min 10 n\<close> entries for \<open>n\<close> players, every returned score
  is at least the next one, and when there is a player at all the first entry holds
  the maximum score of all players.
\<close>

theorem getLeaderboard_top10:
  "(getSession r joinCode = None \<longrightarrow> getLeaderboard r joinCode = [])
   \<and> (\<forall>state. getSession r joinCode = Some state \<longrightarrow>
        (\<exists>ranked. mset ranked = mset (map snd (players state))
           \<and> sorted_wrt (\<lambda>a b. toNumber (score b) \<le> toNumber (score a)) ranked
           \<and> getLeaderboard r joinCode = take 10 ranked)
        \<and> length (getLeaderboard r joinCode) = min 10 (length (players state))
        \<and> (\<forall>i. Suc i < length (getLeaderboard r joinCode) \<longrightarrow>
              toNumber (score (getLeaderboard r joinCode ! Suc i))
                \<le> toNumber (score (getLeaderboard r joinCode ! i)))
        \<and> (\<forall>p \<in> set (map snd (players state)).
              getLeaderboard r joinCode \<noteq> [] \<and>
              toNumber (score p) \<le> toNumber (score (hd (getLeaderboard r joinCode)))))"
proof (intro conjI allI impI ballI)
  assume "getSession r joinCode = None"
  then show "getLeaderboard r joinCode = []" by (simp add: getLeaderboard_def)
next
  fix state assume g: "getSession r joinCode = Some state"
  let ?ranked = "sort_key (\<lambda>p. - toNumber (score p)) (map snd (players state))"
  have lb: "getLeaderboard r joinCode = take 10 ?ranked"
    using g by (simp add: getLeaderboard_def)
  have desc: "sorted_wrt (\<lambda>a b. toNumber (score b) \<le> toNumber (score a)) ?ranked"
    by (rule ranked_descending)
  show "\<exists>ranked. mset ranked = mset (map snd (players state))
           \<and> sorted_wrt (\<lambda>a b. toNumber (score b) \<le> toNumber (score a)) ranked
           \<and> getLeaderboard r joinCode = take 10 ranked"
    using lb desc by (intro exI [of _ ?ranked]) simp
  show "length (getLeaderboard r joinCode) = min 10 (length (players state))"
    by (simp add: lb)
  have desc10: "sorted_wrt (\<lambda>a b. toNumber (score b) \<le> toNumber (score a))
                  (getLeaderboard r joinCode)"
    unfolding lb using desc by (rule sorted_wrt_take)
  { fix i assume "Suc i < length (getLeaderboard r joinCode)"
    then show "toNumber (score (getLeaderboard r joinCode ! Suc i))
                \<le> toNumber (score (getLeaderboard r joinCode ! i))"
      using sorted_wrt_nth_less [OF desc10, of i "Suc i"] by simp }
  { fix p assume p: "p \<in> set (map snd (players state))"
    then have "players state \<noteq> []" by auto
    moreover have "length ?ranked = length (players state)" by simp
    ultimately have ne: "?ranked \<noteq> []" by (metis length_0_conv)
    then show "getLeaderboard r joinCode \<noteq> []" by (simp add: lb)
    have hd: "hd (getLeaderboard r joinCode) = hd ?ranked" by (simp add: lb)
    from p have "p \<in> set ?ranked" by (simp only: set_sort)
    then obtain i where i: "i < length ?ranked" "?ranked ! i = p"
      unfolding in_set_conv_nth by blast
    show "toNumber (score p) \<le> toNumber (score (hd (getLeaderboard r joinCode)))"
    proof (cases i)
      case 0
      then show ?thesis using i ne by (simp add: hd hd_conv_nth)
    next
      case (Suc j)
      then show ?thesis
        using sorted_wrt_nth_less [OF desc, of 0 i] i ne by (simp add: hd hd_conv_nth)
    qed }
qed

text \<open>
  Witness for C9: with the fifteen players the leaderboard has exactly ten entries, from
  \<open>1400\<close> down to \<open>500\<close>.
\<close>

theorem getLeaderboard_top10_witness:
  "getSession lb_store ''333333'' \<noteq> None
   \<and> length (getLeaderboard lb_store ''333333'') = 10
   \<and> map (\<lambda>p. toNumber (score p)) (getLeaderboard lb_store ''333333'')
       = [1400, 1300, 1200, 1100, 1000, 900, 800, 700, 600, 500]
   \<and> toNumber (score (getLeaderboard lb_store ''333333'' ! 1))
       \<le> toNumber (score (getLeaderboard lb_store ''333333'' ! 0))"
proof -
  have g: "getSession lb_store ''333333'' = Some (the (lb_store ''333333''))"
    by (simp add: getSession_def lb_store_def)
  have n: "length (players (the (lb_store ''333333''))) = 15"
    by (simp add: lb_store_def fifteen_def)
  have e: "map (\<lambda>p. toNumber (score p)) (getLeaderboard lb_store ''333333'')
       = [1400, 1300, 1200, 1100, 1000, 900, 800, 700, 600, 500]"
    by (simp add: getLeaderboard_def getSession_def lb_store_def fifteen_def)
  note t = getLeaderboard_top10 [of lb_store "''333333''", THEN conjunct2, rule_format, OF g]
  from t have len: "length (getLeaderboard lb_store ''333333'') = 10"
    by (simp add: n)
  from t len have "toNumber (score (getLeaderboard lb_store ''333333'' ! Suc 0))
       \<le> toNumber (score (getLeaderboard lb_store ''333333'' ! 0))"
    by simp
  with g len e show ?thesis by simp
qed

subsection \<open>Option indices outside the options\<close>






subsection \<open>The question index in reachable states\<close>

lemma submitAnswer_store:
  assumes "getSession r joinCode = Some state"
  shows "getSession (fst (submitAnswer db r now now' joinCode pid oi)) joinCode = Some state
       \<or> (\<exists>state' correct points.
             submitAnswer_local db state now now' pid oi = Inr (state', correct, points)
           \<and> getSession (fst (submitAnswer db r now now' joinCode pid oi)) joinCode
               = Some state')"
  using assms by (auto simp: submitAnswer_def getSession_def split: sum.splits)

lemma perform_step:
  assumes "getSession r joinCode = Some state" and "index_ok db state"
  shows "\<exists>state'. getSession (perform db joinCode r c) joinCode = Some state'
           \<and> quizId state' = quizId state \<and> index_ok db state'
           \<and> (case c of Start t \<Rightarrow> currentQuestionIndex state' = - 1
                | Next t \<Rightarrow> currentQuestionIndex state' = currentQuestionIndex state + 1
                | _ \<Rightarrow> currentQuestionIndex state' = currentQuestionIndex state)"
proof (cases c)
  case (Join nick pid)
  then show ?thesis using assms
    by (auto simp: joinSession_def getSession_def Let_def index_ok_def)
next
  case (Start t)
  then show ?thesis using assms
    by (auto simp: startGame_def getSession_def Let_def index_ok_def)
next
  case (Next t)
  then show ?thesis using assms
    by (auto simp: nextQuestion_def getSession_def Let_def index_ok_def question_at_def)
next
  case (Submit now now' pid oi)
  from submitAnswer_store [OF assms(1), of db now now' pid oi]
  show ?thesis
  proof
    assume "getSession (fst (submitAnswer db r now now' joinCode pid oi)) joinCode = Some state"
    then show ?thesis using assms Submit by simp
  next
    assume "\<exists>state' correct points.
             submitAnswer_local db state now now' pid oi = Inr (state', correct, points)
           \<and> getSession (fst (submitAnswer db r now now' joinCode pid oi)) joinCode
               = Some state'"
    then obtain state' correct points where
      l: "submitAnswer_local db state now now' pid oi = Inr (state', correct, points)"
      and s: "getSession (fst (submitAnswer db r now now' joinCode pid oi)) joinCode
                = Some state'"
      by blast
    from submitAnswer_local_Inr(4) [OF l] assms(2)
    have "quizId state' = quizId state" "index_ok db state'"
      "currentQuestionIndex state' = currentQuestionIndex state"
      by (simp_all add: index_ok_def)
    then show ?thesis using s Submit by simp
  qed
next
  case Show
  then show ?thesis using assms
    by (auto simp: showResults_def getSession_def Let_def index_ok_def question_at_def
        split: option.splits if_splits)
next
  case End
  then show ?thesis using assms
    by (auto simp: endGame_def getSession_def index_ok_def)
qed

lemma play_index_ok:
  "\<exists>state. getSession (play db r0 joinCode sid quiz host cs) joinCode = Some state
      \<and> quizId state = quiz \<and> index_ok db state"
proof (induction cs rule: rev_induct)
  case Nil
  show ?case by (simp add: play_def createSession_def getSession_def index_ok_def)
next
  case (snoc c cs)
  then obtain state where s:
    "getSession (play db r0 joinCode sid quiz host cs) joinCode = Some state"
    "quizId state = quiz" "index_ok db state" by blast
  from perform_step [OF s(1) s(3), of c] s(2)
  show ?case by (auto simp: play_def)
qed

text \<open>
  C4, as the code has it. In every state reached from a freshly created session by any
  list of commands, \<open>currentQuestionIndex\<close> is at least \<open>-1\<close>, and when it is the number
  of questions or more the status is \<open>ENDED\<close>. Every further command leaves the index
  at least as large as it was, except \<open>startGame\<close>, which sets it to \<open>-1\<close>. No upper bound
  is part of the statement.
\<close>

theorem currentQuestionIndex_invariant:
  "\<exists>state. getSession (play db r0 joinCode sid quiz host cs) joinCode = Some state
     \<and> - 1 \<le> currentQuestionIndex state
     \<and> (int (length (getQuizQuestions db quiz)) \<le> currentQuestionIndex state
          \<longrightarrow> status state = ENDED)
     \<and> (\<forall>c. \<exists>state'.
            getSession (play db r0 joinCode sid quiz host (cs @ [c])) joinCode = Some state'
          \<and> (case c of Start t \<Rightarrow> currentQuestionIndex state' = - 1
               | _ \<Rightarrow> currentQuestionIndex state \<le> currentQuestionIndex state'))"
proof -
  from play_index_ok [of db r0 joinCode sid quiz host cs]
  obtain state where s:
    "getSession (play db r0 joinCode sid quiz host cs) joinCode = Some state"
    "quizId state = quiz" "index_ok db state" by blast
  have "\<exists>state'. getSession (play db r0 joinCode sid quiz host (cs @ [c])) joinCode
                  = Some state'
          \<and> (case c of Start t \<Rightarrow> currentQuestionIndex state' = - 1
               | _ \<Rightarrow> currentQuestionIndex state \<le> currentQuestionIndex state')" for c
    using perform_step [OF s(1) s(3), of c]
    by (cases c) (auto simp: play_def)
  with s show ?thesis by (auto simp: index_ok_def)
qed

lemma play_db1_ended:
  "getSession (play db1 Map.empty ''123456'' ''s1'' ''quiz-1'' ''host-1''
                 [Start 500, Next 1000, Next 2000, Next 3000]) ''123456'' =
     Some \<lparr>sessionId = ''s1'', quizId = ''quiz-1'', hostId = ''host-1'',
           status = ENDED, currentQuestionIndex = 2, players = [], answers = [],
           questionStartTime = Some 3000, startTime = Some 500\<rparr>"
  by (simp add: play_def createSession_def startGame_def nextQuestion_def getSession_def
      getQuizQuestions_db1 question_at_def Let_def)

text \<open>
  Witness for C4: the test quiz has two questions; after three calls of \<open>nextQuestion\<close>
  the index is \<open>2\<close> and the game has ended.
\<close>

theorem currentQuestionIndex_invariant_witness:
  "\<exists>state. getSession (play db1 Map.empty ''123456'' ''s1'' ''quiz-1'' ''host-1''
                 [Start 500, Next 1000, Next 2000, Next 3000]) ''123456'' = Some state
     \<and> int (length (getQuizQuestions db1 ''quiz-1'')) \<le> currentQuestionIndex state
     \<and> status state = ENDED"
  using currentQuestionIndex_invariant [of db1 Map.empty "''123456''" "''s1''" "''quiz-1''"
      "''host-1''" "[Start 500, Next 1000, Next 2000, Next 3000]"]
  by (auto simp: play_db1_ended getQuizQuestions_db1)

text \<open>
  C4 as stated fails on the upper bound: \<open>nextQuestion\<close> adds one to the index also
  after the game has ended, so a fourth call leaves the index \<open>3\<close> for two questions.
\<close>

theorem currentQuestionIndex_beyond_questionCount:
  "map_option currentQuestionIndex
     (getSession (play db1 Map.empty ''123456'' ''s1'' ''quiz-1'' ''host-1''
                    [Start 500, Next 1000, Next 2000, Next 3000, Next 4000]) ''123456'')
     = Some 3
   \<and> length (getQuizQuestions db1 ''quiz-1'') = 2"
  by (simp add: play_def createSession_def startGame_def nextQuestion_def getSession_def
      getQuizQuestions_db1 question_at_def Let_def)

subsection \<open>The status \<open>ENDED\<close>\<close>

lemma r_ended_state:
  "r_ended ''123456'' =
     Some \<lparr>sessionId = ''s1'', quizId = ''quiz-1'', hostId = ''host-1'',
           status = ENDED, currentQuestionIndex = 2, players = [], answers = [],
           questionStartTime = Some 3000, startTime = Some 500\<rparr>"
  using play_db1_ended by (simp add: r_ended_def getSession_def)

text \<open>
  C3, as the code has it. For every stored state with status \<open>ENDED\<close>, \<open>joinSession\<close>
  fails with "Game already started" and \<open>submitAnswer\<close> with "Not accepting answers",
  and \<open>showResults\<close> fails with "No current question" when there is no question at
  \<open>currentQuestionIndex\<close> (as after the last question); each of them leaves Redis
  unchanged. \<open>getLeaderboard\<close> returns the ranking of the players. Nothing is said of
  \<open>startGame\<close> and \<open>nextQuestion\<close>.
\<close>

theorem ENDED_rejects:
  assumes "getSession r joinCode = Some state" and "status state = ENDED"
  shows "joinSession r joinCode nick pid = (r, Inl Game_already_started)
     \<and> submitAnswer db r now now' joinCode pid' oi = (r, Inl Not_accepting_answers)
     \<and> (question_at (getQuizQuestions db (quizId state)) (currentQuestionIndex state) = None
          \<longrightarrow> showResults db r joinCode = (r, Inl No_current_question))
     \<and> getLeaderboard r joinCode =
          take 10 (sort_key (\<lambda>p. - toNumber (score p)) (map snd (players state)))"
  using assms
  by (simp add: joinSession_def submitAnswer_def submitAnswer_local_def showResults_def
      getLeaderboard_def getSession_def)

text \<open>Witness for C3: the test quiz after its last question.\<close>

theorem ENDED_rejects_witness:
  "map_option status (getSession r_ended ''123456'') = Some ENDED
   \<and> joinSession r_ended ''123456'' ''Dave'' ''p4'' = (r_ended, Inl Game_already_started)
   \<and> submitAnswer db1 r_ended 4000 4000 ''123456'' ''p1'' 0
       = (r_ended, Inl Not_accepting_answers)
   \<and> showResults db1 r_ended ''123456'' = (r_ended, Inl No_current_question)
   \<and> getLeaderboard r_ended ''123456'' = []"
proof -
  have g: "getSession r_ended ''123456'' = Some (the (getSession r_ended ''123456''))"
    by (simp add: getSession_def r_ended_state)
  have e: "status (the (getSession r_ended ''123456'')) = ENDED"
    by (simp add: getSession_def r_ended_state)
  have q: "question_at (getQuizQuestions db1 (quizId (the (getSession r_ended ''123456''))))
             (currentQuestionIndex (the (getSession r_ended ''123456''))) = None"
    by (simp add: getSession_def r_ended_state getQuizQuestions_db1 question_at_def)
  have p: "players (the (getSession r_ended ''123456'')) = []"
    by (simp add: getSession_def r_ended_state)
  from ENDED_rejects [OF g e, where nick = "''Dave''" and pid = "''p4''" and db = db1
      and now = 4000 and now' = 4000 and pid' = "''p1''" and oi = 0] q p
  show ?thesis by (simp add: getSession_def r_ended_state)
qed

text \<open>
  C3 as stated fails for \<open>startGame\<close>, which checks no status: on the ended game it
  succeeds and stores the status \<open>ACTIVE\<close>.
\<close>

theorem ENDED_startGame_restarts:
  "map_option status (getSession r_ended ''123456'') = Some ENDED
   \<and> map_option status (snd (startGame r_ended 9000 ''123456'')) = Some ACTIVE
   \<and> map_option status (getSession (fst (startGame r_ended 9000 ''123456'')) ''123456'')
       = Some ACTIVE"
  by (simp add: r_ended_state startGame_def Let_def getSession_def)

subsection \<open>Scores in reachable states\<close>

lemma list_all_map_of:
  "list_all P al \<Longrightarrow> map_of al k = Some v \<Longrightarrow> P (k, v)"
  by (auto simp: list_all_iff dest: map_of_SomeD)

lemma calcPoints_finite:
  assumes "limit \<noteq> 0"
  shows "\<exists>x. calcPoints correct rtMs limit = Fin x \<and> 0 \<le> x"
proof (cases correct)
  case False
  then show ?thesis by (simp add: calcPoints_def)
next
  case True
  let ?b = "max 0 (1 - rat_of_int rtMs / (rat_of_int limit * 1000))"
  have "0 \<le> ?b" by simp
  then have "rat_of_int 0 \<le> 1000 + ?b * 500 + 1 / 2" by simp
  then have "0 \<le> \<lfloor>1000 + ?b * 500 + 1 / 2\<rfloor>" by (simp only: le_floor_iff)
  then show ?thesis using True assms by (simp add: calcPoints_def js_div_def)
qed

lemma question_at_in_set: "question_at qs i = Some q \<Longrightarrow> q \<in> set qs"
  by (auto simp: question_at_def split: if_splits)

lemma scores_ok_score:
  assumes "scores_ok state" and "map_of (players state) pid = Some p"
  shows "\<exists>s. score p = Some s \<and> 0 \<le> s \<and> (status state = WAITING \<longrightarrow> s = 0)"
proof -
  from assms have "case score p of None \<Rightarrow> False | Some s \<Rightarrow> 0 \<le> s"
    using list_all_map_of [of _ "players state" pid p] by (auto simp: scores_ok_def)
  moreover from assms have "status state = WAITING \<longrightarrow> score p = Some 0"
    using list_all_map_of [of _ "players state" pid p] by (auto simp: scores_ok_def)
  ultimately show ?thesis by (auto split: option.splits)
qed

lemma unchanged_scores:
  assumes "scores_ok state" and "map_of (players state) k = Some p"
  shows "\<exists>p' s s'. map_of (players state) k = Some p'
           \<and> score p = Some s \<and> score p' = Some s' \<and> s \<le> s'"
  using scores_ok_score [OF assms] assms(2) by auto

lemma submit_scores:
  assumes ok: "scores_ok state"
    and nz: "list_all (\<lambda>q. timeLimit q \<noteq> 0) (getQuizQuestions db (quizId state))"
    and l: "submitAnswer_local db state now now' pid oi = Inr (state', correct, points)"
  shows "scores_ok state' \<and> quizId state' = quizId state
     \<and> (\<forall>k p. map_of (players state) k = Some p \<longrightarrow>
          (\<exists>p' s s'. map_of (players state') k = Some p'
             \<and> score p = Some s \<and> score p' = Some s' \<and> s \<le> s'))"
proof -
  note r = submitAnswer_local_Inr [OF l]
  from r(3) obtain question where q:
    "question_at (getQuizQuestions db (quizId state)) (currentQuestionIndex state)
       = Some question"
    "points = calcPoints correct (now - startOr (questionStartTime state) now')
                (timeLimit question)" by blast
  from question_at_in_set [OF q(1)] nz have "timeLimit question \<noteq> 0"
    by (simp add: list_all_iff)
  from calcPoints_finite [OF this] q(2) obtain x where x: "points = Fin x" "0 \<le> x"
    by blast
  show ?thesis
  proof (cases "map_of (players state) pid")
    case None
    with r(4) have e: "players state' = players state" "status state' = status state"
      "quizId state' = quizId state" by simp_all
    with ok have "scores_ok state'" by (simp add: scores_ok_def)
    then show ?thesis using unchanged_scores [OF ok] e by simp
  next
    case (Some p0)
    from scores_ok_score [OF ok Some] obtain s0 where s0: "score p0 = Some s0" "0 \<le> s0"
      by blast
    have new: "score (addScore points p0) = Some (s0 + x)"
      by (simp add: addScore_def x s0)
    from r(4) Some have st': "players state' = AList.update pid (addScore points p0) (players state)"
      "status state' = SHOWING_QUESTION" "quizId state' = quizId state"
      by (simp_all add: r(1))
    have "scores_ok state'"
      using ok s0 x new by (auto simp: scores_ok_def st' intro!: list_all_update)
    moreover have "\<exists>p' s s'. map_of (players state') k = Some p'
             \<and> score p = Some s \<and> score p' = Some s' \<and> s \<le> s'"
      if "map_of (players state) k = Some p" for k p
    proof (cases "k = pid")
      case True
      with that Some have "p = p0" by simp
      then show ?thesis using True s0 x new by (simp add: st' update_conv')
    next
      case False
      then show ?thesis using that scores_ok_score [OF ok that]
        by (auto simp: st' update_conv')
    qed
    ultimately show ?thesis using st'(3) by blast
  qed
qed

lemma perform_scores:
  assumes g: "getSession r joinCode = Some state" and ok: "scores_ok state"
    and nz: "list_all (\<lambda>q. timeLimit q \<noteq> 0) (getQuizQuestions db (quizId state))"
  shows "\<exists>state'. getSession (perform db joinCode r c) joinCode = Some state'
           \<and> quizId state' = quizId state \<and> scores_ok state'
           \<and> (\<forall>k p. map_of (players state) k = Some p \<longrightarrow>
                (\<exists>p' s s'. map_of (players state') k = Some p'
                   \<and> score p = Some s \<and> score p' = Some s' \<and> s \<le> s'))"
proof -
  have same: "\<exists>state'. getSession r' joinCode = Some state'
           \<and> quizId state' = quizId state \<and> scores_ok state'
           \<and> (\<forall>k p. map_of (players state) k = Some p \<longrightarrow>
                (\<exists>p' s s'. map_of (players state') k = Some p'
                   \<and> score p = Some s \<and> score p' = Some s' \<and> s \<le> s'))"
    if "getSession r' joinCode = Some state'" "players state' = players state"
      "quizId state' = quizId state" "status state' \<noteq> WAITING \<or> status state' = status state"
    for r' state'
  proof -
    from that ok have "scores_ok state'" by (auto simp: scores_ok_def)
    then show ?thesis using unchanged_scores [OF ok] that(1,2,3) by simp
  qed
  show ?thesis
  proof (cases c)
    case (Join nick pid)
    show ?thesis
    proof (cases "status state = WAITING")
      case False
      then have "getSession (perform db joinCode r c) joinCode = Some state"
        using g Join by (simp add: joinSession_def getSession_def)
      then show ?thesis by (rule same) simp_all
    next
      case True
      let ?new = "\<lparr>p_id = pid, nickname = nick, score = Some 0\<rparr>"
      let ?s' = "state\<lparr>players := assign pid ?new (players state)\<rparr>"
      have g': "getSession (perform db joinCode r c) joinCode = Some ?s'"
        using g Join True by (simp add: joinSession_def getSession_def Let_def)
      have "scores_ok ?s'"
        using ok True by (auto simp: scores_ok_def intro!: list_all_assign)
      moreover have "\<exists>p' s s'. map_of (players ?s') k = Some p'
             \<and> score p = Some s \<and> score p' = Some s' \<and> s \<le> s'"
        if "map_of (players state) k = Some p" for k p
      proof (cases "map_of (players state) pid \<noteq> None \<or> pid \<noteq> ''__proto__''")
        case True
        from map_of_assign [OF this, of ?new]
        show ?thesis
          using scores_ok_score [OF ok that] \<open>status state = WAITING\<close> that by auto
      next
        case False
        then have "assign pid ?new (players state) = players state"
          by (auto simp: assign_def)
        then show ?thesis using unchanged_scores [OF ok that] by simp
      qed
      ultimately show ?thesis using g' by auto
    qed
  next
    case (Start t)
    have "getSession (perform db joinCode r c) joinCode
            = Some (state\<lparr>status := ACTIVE, startTime := Some t, currentQuestionIndex := - 1\<rparr>)"
      using g Start by (simp add: startGame_def getSession_def Let_def)
    then show ?thesis by (rule same) simp_all
  next
    case (Next t)
    from nextQuestion_step [OF g, of db t]
    have "getSession (perform db joinCode r c) joinCode
            = Some (state\<lparr>currentQuestionIndex := currentQuestionIndex state + 1,
          answers := [], questionStartTime := Some t,
          status := (if question_at (getQuizQuestions db (quizId state))
                          (currentQuestionIndex state + 1) = None
                     then ENDED else SHOWING_QUESTION)\<rparr>)"
      using Next by (simp add: getSession_def)
    then show ?thesis by (rule same) simp_all
  next
    case (Submit now now' pid oi)
    from submitAnswer_store [OF g, of db now now' pid oi]
    show ?thesis
    proof
      assume "getSession (fst (submitAnswer db r now now' joinCode pid oi)) joinCode
                = Some state"
      then have "getSession (perform db joinCode r c) joinCode = Some state"
        using Submit by simp
      then show ?thesis by (rule same) simp_all
    next
      assume "\<exists>state' correct points.
             submitAnswer_local db state now now' pid oi = Inr (state', correct, points)
           \<and> getSession (fst (submitAnswer db r now now' joinCode pid oi)) joinCode
               = Some state'"
      then obtain state' correct points where
        l: "submitAnswer_local db state now now' pid oi = Inr (state', correct, points)"
        and s: "getSession (fst (submitAnswer db r now now' joinCode pid oi)) joinCode
                  = Some state'"
        by blast
      from submit_scores [OF ok nz l] s Submit show ?thesis by auto
    qed
  next
    case Show
    show ?thesis
    proof (cases "question_at (getQuizQuestions db (quizId state))
                    (currentQuestionIndex state)")
      case None
      then have "getSession (perform db joinCode r c) joinCode = Some state"
        using g Show by (simp add: showResults_def)
      then show ?thesis by (rule same) simp_all
    next
      case (Some q)
      then have "getSession (perform db joinCode r c) joinCode
                   = Some (state\<lparr>status := SHOWING_RESULTS\<rparr>)"
        using g Show by (simp add: showResults_found getSession_def)
      then show ?thesis by (rule same) simp_all
    qed
  next
    case End
    have "getSession (perform db joinCode r c) joinCode = Some (state\<lparr>status := ENDED\<rparr>)"
      using g End by (simp add: endGame_def getSession_def)
    then show ?thesis by (rule same) simp_all
  qed
qed

lemma play_scores_ok:
  assumes "list_all (\<lambda>q. timeLimit q \<noteq> 0) (getQuizQuestions db quiz)"
  shows "\<exists>state. getSession (play db r0 joinCode sid quiz host cs) joinCode = Some state
      \<and> quizId state = quiz \<and> scores_ok state"
proof (induction cs rule: rev_induct)
  case Nil
  show ?case by (simp add: play_def createSession_def getSession_def scores_ok_def)
next
  case (snoc c cs)
  then obtain state where s:
    "getSession (play db r0 joinCode sid quiz host cs) joinCode = Some state"
    "quizId state = quiz" "scores_ok state" by blast
  from assms s(2) have nz: "list_all (\<lambda>q. timeLimit q \<noteq> 0) (getQuizQuestions db (quizId state))"
    by simp
  from perform_scores [OF s(1) s(3) nz, of c] s(2)
  show ?case by (auto simp: play_def)
qed

text \<open>
  Where the points are numbers. Let no question of the quiz have the time limit \<open>0\<close>,
  and let the commands run one after the other. In every state reached from a freshly
  created session: while the status is \<open>WAITING\<close> every player's score is \<open>0\<close>; a
  \<open>submitAnswer\<close> that succeeds returns a number of points that is not negative; and
  after any further command every player of the state is still a player, with a score
  at least as large as before.
\<close>

lemma score_never_decreases_in_domain:
  assumes "list_all (\<lambda>q. timeLimit q \<noteq> 0) (getQuizQuestions db quiz)"
  shows "\<exists>state. getSession (play db r0 joinCode sid quiz host cs) joinCode = Some state
     \<and> (status state = WAITING \<longrightarrow> list_all (\<lambda>(k, p). score p = Some 0) (players state))
     \<and> (\<forall>now now' pid oi correct points.
          snd (submitAnswer db (play db r0 joinCode sid quiz host cs) now now' joinCode pid oi)
            = Inr (correct, points)
          \<longrightarrow> (\<exists>x. points = Fin x \<and> 0 \<le> x))
     \<and> (\<forall>c k p. map_of (players state) k = Some p \<longrightarrow>
          (\<exists>state' p' s s'.
             getSession (play db r0 joinCode sid quiz host (cs @ [c])) joinCode = Some state'
             \<and> map_of (players state') k = Some p'
             \<and> score p = Some s \<and> score p' = Some s' \<and> s \<le> s'))"
proof -
  from play_scores_ok [OF assms, of r0 joinCode sid host cs]
  obtain state where s:
    "getSession (play db r0 joinCode sid quiz host cs) joinCode = Some state"
    "quizId state = quiz" "scores_ok state" by blast
  from assms s(2) have nz: "list_all (\<lambda>q. timeLimit q \<noteq> 0) (getQuizQuestions db (quizId state))"
    by simp
  have waiting: "status state = WAITING \<longrightarrow> list_all (\<lambda>(k, p). score p = Some 0) (players state)"
    using s(3) by (simp add: scores_ok_def)
  have pts: "\<exists>x. points = Fin x \<and> 0 \<le> x"
    if "snd (submitAnswer db (play db r0 joinCode sid quiz host cs) now now' joinCode pid oi)
            = Inr (correct, points)" for now now' pid oi correct points
  proof -
    from submitAnswer_Inr [OF that] s(1) obtain state' where
      l: "submitAnswer_local db state now now' pid oi = Inr (state', correct, points)"
      by auto
    from submitAnswer_local_Inr(3) [OF l] obtain question where q:
      "question_at (getQuizQuestions db (quizId state)) (currentQuestionIndex state)
         = Some question"
      "points = calcPoints correct (now - startOr (questionStartTime state) now')
                  (timeLimit question)" by blast
    from question_at_in_set [OF q(1)] nz have "timeLimit question \<noteq> 0"
      by (simp add: list_all_iff)
    from calcPoints_finite [OF this] q(2) show ?thesis by blast
  qed
  have step: "\<exists>state' p' s s'.
             getSession (play db r0 joinCode sid quiz host (cs @ [c])) joinCode = Some state'
             \<and> map_of (players state') k = Some p'
             \<and> score p = Some s \<and> score p' = Some s' \<and> s \<le> s'"
    if "map_of (players state) k = Some p" for c k p
    using perform_scores [OF s(1) s(3) nz, of c] that by (auto simp: play_def)
  from s(1) waiting pts step show ?thesis by blast
qed

text \<open>
  C8 says that no operation lowers a player's score and that \<open>submitAnswer\<close> only adds
  a non-negative number of points. The engine divides by \<open>timeLimit * 1000\<close> unchecked,
  although the route that updates a quiz refuses a time limit below \<open>1\<close>. Alice holds
  \<open>1500\<close> points from the first question of \<open>quiz-z\<close>; the second question was created
  with the time limit \<open>0\<close>, her correct answer in the millisecond it started is worth
  \<open>NaN\<close> points, her score becomes \<open>NaN\<close> and is written to Redis as \<open>null\<close>.
\<close>

theorem score_lost_on_zero_timeLimit:
  "map_option (\<lambda>state. map_option score (map_of (players state) ''p1''))
     (getSession z_question2 ''654321'') = Some (Some (Some 1500))
   \<and> snd (submitAnswer dbz z_question2 2000 2000 ''654321'' ''p1'' 0) = Inr (True, NaN)
   \<and> map_option (\<lambda>state. map_option score (map_of (players state) ''p1''))
       (getSession (fst (submitAnswer dbz z_question2 2000 2000 ''654321'' ''p1'' 0)) ''654321'')
       = Some (Some None)"
  by (simp add: submitAnswer_def submitAnswer_local_def dictionary_simps getSession_def z_question2_state
      getQuizQuestions_dbz question_at_def Let_def quizz_q2_def calcPoints_def js_div_def
      startOr_def addScore_def)

subsection \<open>Two answers to one question\<close>

lemma submitAnswer_get_set:
  "submitAnswer db r now now' joinCode pid oi =
     submitAnswer_set db r (getSession r joinCode) now now' joinCode pid oi"
  by (simp add: submitAnswer_def submitAnswer_set_def)

text \<open>
  C2, as the code has it. On a session that shows a question, take two calls of
  \<open>submitAnswer\<close> by distinct players for whom the lookup \<open>answers[playerId]\<close> finds
  nothing, the second started after the first has returned. Both succeed, and the state
  stored afterwards holds both answer records and, for each of the two who is a player,
  the score with the points of the call added.
\<close>

theorem submitAnswer_one_after_the_other:
  assumes "getSession r joinCode = Some state"
    and "status state = SHOWING_QUESTION"
    and "question_at (getQuizQuestions db (quizId state)) (currentQuestionIndex state)
           = Some question"
    and "\<not> has_member (answers state) pid1" and "\<not> has_member (answers state) pid2"
    and "pid1 \<noteq> pid2"
  shows "\<exists>r' state' points1 points2.
           submitAnswer_twice db r joinCode (now1, now1', pid1, oi1) (now2, now2', pid2, oi2)
             = (r', Inr (oi1 = correctOptionIndex question, points1),
                    Inr (oi2 = correctOptionIndex question, points2))
         \<and> getSession r' joinCode = Some state'
         \<and> map_of (answers state') pid1
             = Some \<lparr>playerId = pid1, optionIndex = oi1,
                     responseTimeMs = now1 - startOr (questionStartTime state) now1'\<rparr>
         \<and> map_of (answers state') pid2
             = Some \<lparr>playerId = pid2, optionIndex = oi2,
                     responseTimeMs = now2 - startOr (questionStartTime state) now2'\<rparr>
         \<and> (\<forall>p. map_of (players state) pid1 = Some p
                \<longrightarrow> map_of (players state') pid1 = Some (addScore points1 p))
         \<and> (\<forall>p. map_of (players state) pid2 = Some p
                \<longrightarrow> map_of (players state') pid2 = Some (addScore points2 p))"
proof -
  from submitAnswer_local_succeeds [OF assms(2,4,3), of now1 now1' oi1]
  obtain s1 c1 p1 where l1: "submitAnswer_local db state now1 now1' pid1 oi1 = Inr (s1, c1, p1)"
    by blast
  note a1 = submitAnswer_local_Inr [OF l1]
  have s1: "status s1 = SHOWING_QUESTION" "quizId s1 = quizId state"
    "currentQuestionIndex s1 = currentQuestionIndex state"
    "questionStartTime s1 = questionStartTime state"
    "map_of (answers s1) = (map_of (answers state))(pid1 \<mapsto>
        \<lparr>playerId = pid1, optionIndex = oi1,
         responseTimeMs = now1 - startOr (questionStartTime state) now1'\<rparr>)"
    "map_of (players s1) = (case map_of (players state) pid1 of
         None \<Rightarrow> map_of (players state)
       | Some p \<Rightarrow> (map_of (players state))(pid1 \<mapsto> addScore p1 p))"
    using a1(4) assms(2)
    by (simp_all add: update_conv' map_of_assign_new [OF assms(4)] split: option.splits)
  have n2: "\<not> has_member (answers s1) pid2"
    using assms(5,6) by (simp add: has_member_def s1(5))
  have q2: "question_at (getQuizQuestions db (quizId s1)) (currentQuestionIndex s1)
              = Some question" by (simp add: s1 assms(3))
  from submitAnswer_local_succeeds [OF s1(1) n2 q2, of now2 now2' oi2]
  obtain s2 c2 p2 where l2: "submitAnswer_local db s1 now2 now2' pid2 oi2 = Inr (s2, c2, p2)"
    by blast
  note a2 = submitAnswer_local_Inr [OF l2]
  have s2: "map_of (answers s2) = (map_of (answers s1))(pid2 \<mapsto>
        \<lparr>playerId = pid2, optionIndex = oi2,
         responseTimeMs = now2 - startOr (questionStartTime state) now2'\<rparr>)"
    "map_of (players s2) = (case map_of (players s1) pid2 of
         None \<Rightarrow> map_of (players s1)
       | Some p \<Rightarrow> (map_of (players s1))(pid2 \<mapsto> addScore p2 p))"
    using a2(4)
    by (simp_all add: update_conv' map_of_assign_new [OF n2] s1(4) split: option.splits)
  have run: "submitAnswer_twice db r joinCode (now1, now1', pid1, oi1) (now2, now2', pid2, oi2)
      = (r(joinCode \<mapsto> s2), Inr (c1, p1), Inr (c2, p2))"
  proof -
    have f: "submitAnswer db r now1 now1' joinCode pid1 oi1
               = (r(joinCode \<mapsto> s1), Inr (c1, p1))"
      by (simp add: submitAnswer_def assms(1) l1)
    have g1: "getSession (r(joinCode \<mapsto> s1)) joinCode = Some s1"
      by (simp add: getSession_def)
    have s: "submitAnswer db (r(joinCode \<mapsto> s1)) now2 now2' joinCode pid2 oi2
               = (r(joinCode \<mapsto> s2), Inr (c2, p2))"
      by (simp add: submitAnswer_def g1 l2)
    show ?thesis by (simp add: submitAnswer_twice_def f s Let_def)
  qed
  have "map_of (answers s2) pid1
             = Some \<lparr>playerId = pid1, optionIndex = oi1,
                     responseTimeMs = now1 - startOr (questionStartTime state) now1'\<rparr>"
    using assms(6) by (simp add: s2(1) s1(5))
  moreover have "map_of (answers s2) pid2
             = Some \<lparr>playerId = pid2, optionIndex = oi2,
                     responseTimeMs = now2 - startOr (questionStartTime state) now2'\<rparr>"
    by (simp add: s2(1))
  moreover have "\<forall>p. map_of (players state) pid1 = Some p
                \<longrightarrow> map_of (players s2) pid1 = Some (addScore p1 p)"
    using assms(6) by (auto simp: s2(2) s1(6) split: option.splits)
  moreover have "\<forall>p. map_of (players state) pid2 = Some p
                \<longrightarrow> map_of (players s2) pid2 = Some (addScore p2 p)"
    using assms(6) by (auto simp: s2(2) s1(6) split: option.splits)
  moreover have "c1 = (oi1 = correctOptionIndex question)"
    using a1(3) assms(3) by auto
  moreover have "c2 = (oi2 = correctOptionIndex question)"
    using a2(3) q2 by auto
  ultimately show ?thesis using run by (simp add: getSession_def)
qed

text \<open>Witness for C2: Alice, then Bob, answer the first question of the test quiz.\<close>

theorem submitAnswer_one_after_the_other_witness:
  "\<exists>r' state' points1 points2.
      submitAnswer_twice db1 r_question1 ''123456'' (6000, 6000, ''p1'', 0) (7000, 7000, ''p2'', 0)
        = (r', Inr (True, points1), Inr (True, points2))
      \<and> getSession r' ''123456'' = Some state'
      \<and> map_of (answers state') ''p1''
          = Some \<lparr>playerId = ''p1'', optionIndex = 0, responseTimeMs = 5000\<rparr>
      \<and> map_of (answers state') ''p2''
          = Some \<lparr>playerId = ''p2'', optionIndex = 0, responseTimeMs = 6000\<rparr>
      \<and> map_of (players state') ''p1''
          = Some (addScore points1 \<lparr>p_id = ''p1'', nickname = ''Alice'', score = Some 0\<rparr>)
      \<and> map_of (players state') ''p2''
          = Some (addScore points2 \<lparr>p_id = ''p2'', nickname = ''Bob'', score = Some 0\<rparr>)"
proof -
  have g: "getSession r_question1 ''123456'' = Some (the (r_question1 ''123456''))"
    by (simp add: getSession_def r_question1_state)
  have s: "status (the (r_question1 ''123456'')) = SHOWING_QUESTION"
    by (simp add: r_question1_state)
  have q: "question_at (getQuizQuestions db1 (quizId (the (r_question1 ''123456''))))
             (currentQuestionIndex (the (r_question1 ''123456''))) = Some quiz1_q1"
    by (simp add: r_question1_state getQuizQuestions_db1 question_at_def)
  have a1: "\<not> has_member (answers (the (r_question1 ''123456''))) ''p1''"
    and a2: "\<not> has_member (answers (the (r_question1 ''123456''))) ''p2''"
    by (simp_all add: r_question1_state has_member_def object_prototype_names_def)
  have d: "''p1'' \<noteq> ''p2''" by simp
  from submitAnswer_one_after_the_other [OF g s q a1 a2 d, of 6000 6000 0 7000 7000 0]
  show ?thesis
    by (simp add: r_question1_state quiz1_q1_def startOr_def)
qed

text \<open>
  C2 as stated fails: when the two calls overlap, both report success with their
  points, but the state stored last is built from the state read before Alice's write;
  it holds only Bob's answer, and Alice's score is still \<open>0\<close>.
\<close>

theorem submitAnswer_overlapped_loses_answer:
  "snd (submitAnswer_overlapped db1 r_question1 ''123456''
          (6000, 6000, ''p1'', 0) (7000, 7000, ''p2'', 0))
     = (Inr (True, Fin 1375), Inr (True, Fin 1350))
   \<and> map_option (\<lambda>state. map fst (answers state))
         (getSession (fst (submitAnswer_overlapped db1 r_question1 ''123456''
                             (6000, 6000, ''p1'', 0) (7000, 7000, ''p2'', 0))) ''123456'')
       = Some [''p2'']
   \<and> map_option (\<lambda>state. map (\<lambda>(k, p). (k, score p)) (players state))
         (getSession (fst (submitAnswer_overlapped db1 r_question1 ''123456''
                             (6000, 6000, ''p1'', 0) (7000, 7000, ''p2'', 0))) ''123456'')
       = Some [(''p1'', Some 0), (''p2'', Some 1350)]"
  using floor_half [of 1375] floor_half [of 1350]
  by (simp add: submitAnswer_overlapped_def submitAnswer_set_def submitAnswer_local_def
      dictionary_simps getSession_def r_question1_state getQuizQuestions_db1 question_at_def Let_def
      quiz1_q1_def calcPoints_def js_div_def startOr_def addScore_def)

subsection \<open>A session that shows a question has one\<close>

text \<open>
  In every state reached from a freshly created session, the status \<open>SHOWING_QUESTION\<close>
  comes with a question at \<open>currentQuestionIndex\<close>: the condition under which
  \<open>submitAnswer\<close> is studied above holds whenever the engine accepts answers.
\<close>

lemma perform_shown:
  assumes "getSession r joinCode = Some state"
    and "status state = SHOWING_QUESTION \<longrightarrow>
           question_at (getQuizQuestions db (quizId state)) (currentQuestionIndex state) \<noteq> None"
  shows "\<exists>state'. getSession (perform db joinCode r c) joinCode = Some state'
           \<and> quizId state' = quizId state
           \<and> (status state' = SHOWING_QUESTION \<longrightarrow>
                 question_at (getQuizQuestions db (quizId state'))
                   (currentQuestionIndex state') \<noteq> None)"
proof (cases c)
  case (Join nick pid)
  then show ?thesis using assms
    by (auto simp: joinSession_def getSession_def Let_def)
next
  case (Start t)
  then show ?thesis using assms
    by (auto simp: startGame_def getSession_def Let_def)
next
  case (Next t)
  then show ?thesis using assms
    by (auto simp: nextQuestion_def getSession_def Let_def)
next
  case (Submit now now' pid oi)
  from submitAnswer_store [OF assms(1), of db now now' pid oi]
  show ?thesis
  proof
    assume "getSession (fst (submitAnswer db r now now' joinCode pid oi)) joinCode = Some state"
    then show ?thesis using assms Submit by simp
  next
    assume "\<exists>state' correct points.
             submitAnswer_local db state now now' pid oi = Inr (state', correct, points)
           \<and> getSession (fst (submitAnswer db r now now' joinCode pid oi)) joinCode
               = Some state'"
    then obtain state' correct points where
      l: "submitAnswer_local db state now now' pid oi = Inr (state', correct, points)"
      and s: "getSession (fst (submitAnswer db r now now' joinCode pid oi)) joinCode
                = Some state'"
      by blast
    from submitAnswer_local_Inr(3,4) [OF l]
    have "quizId state' = quizId state"
      "question_at (getQuizQuestions db (quizId state')) (currentQuestionIndex state') \<noteq> None"
      by auto
    then show ?thesis using s Submit by simp
  qed
next
  case Show
  then show ?thesis using assms
    by (auto simp: showResults_def getSession_def Let_def split: option.splits)
next
  case End
  then show ?thesis using assms
    by (auto simp: endGame_def getSession_def)
qed

lemma play_shown:
  "\<exists>state. getSession (play db r0 joinCode sid quiz host cs) joinCode = Some state
      \<and> quizId state = quiz
      \<and> (status state = SHOWING_QUESTION \<longrightarrow>
            question_at (getQuizQuestions db quiz) (currentQuestionIndex state) \<noteq> None)"
proof (induction cs rule: rev_induct)
  case Nil
  show ?case by (simp add: play_def createSession_def getSession_def)
next
  case (snoc c cs)
  then obtain state where s:
    "getSession (play db r0 joinCode sid quiz host cs) joinCode = Some state"
    "quizId state = quiz"
    "status state = SHOWING_QUESTION \<longrightarrow>
       question_at (getQuizQuestions db (quizId state)) (currentQuestionIndex state) \<noteq> None"
    by auto
  from perform_shown [OF s(1) s(3), of c] s(2)
  show ?case by (auto simp: play_def)
qed

end
